theory Spec2Isabelle
  imports Main "HOL-Library.Word"
begin

unbundle bit_operations_syntax

section \<open>The byte streams of \<^verbatim>\<open>runtime/vm/datastream.h\<close>\<close>

type_synonym byte = "8 word"

text \<open>
  Failures of the C++ code, as values. \<open>Fatal\<close> is the \<^verbatim>\<open>FATAL\<close> macro with its message,
  \<open>Unimplemented\<close> is \<^verbatim>\<open>UNIMPLEMENTED()\<close>, \<open>AssertionFailed\<close> is a tripped \<^verbatim>\<open>ASSERT\<close>
  (debug builds), \<open>NullDereference\<close> is a call through a null pointer and \<open>UndefinedShift\<close>
  is a left shift by at least the width of the shifted type.
\<close>

datatype error =
    Fatal string
  | Unimplemented
  | AssertionFailed
  | NullDereference
  | UndefinedShift

text \<open>
  The constants at the head of \<^verbatim>\<open>datastream.h\<close>.
\<close>

definition kDataBitsPerByte :: nat where
  "kDataBitsPerByte = 7"

definition kDataByteMask :: byte where
  "kDataByteMask = push_bit kDataBitsPerByte 1 - 1"

definition kMoreDataMask :: byte where
  "kMoreDataMask = push_bit kDataBitsPerByte 1"

definition kSignMask :: byte where
  "kSignMask = push_bit (kDataBitsPerByte - 1) 1"

text \<open>
  A \<^verbatim>\<open>WriteStream\<close> is modelled by its contents: the bytes between \<^verbatim>\<open>*buffer_\<close> and
  \<^verbatim>\<open>current_\<close>, in the order written. The capacity (\<^verbatim>\<open>end_\<close>, \<^verbatim>\<open>current_size_\<close>) and
  \<^verbatim>\<open>Resize\<close> are left out: \<^verbatim>\<open>Resize\<close> keeps the contents and the position, and its
  allocator is supplied by the embedder. The model is the debug build: a tripped
  \<^verbatim>\<open>ASSERT\<close> is the result \<open>Inl AssertionFailed\<close>. \<^verbatim>\<open>intptr_t\<close> is 64 bits wide.
\<close>

type_synonym WriteStream = "byte list"

definition WriteStream_ctor :: "nat \<Rightarrow> WriteStream" where
  "WriteStream_ctor initial_size = []"

definition bytes_written :: "WriteStream \<Rightarrow> 64 word" where
  "bytes_written st = of_nat (length st)"

definition WriteByte :: "byte \<Rightarrow> WriteStream \<Rightarrow> WriteStream" where
  "WriteByte v st = st @ [v]"

text \<open>\<^verbatim>\<open>WriteFixed<uint8_t>\<close>: \<open>sizeof(T)\<close> is 1.\<close>

definition WriteFixed :: "byte \<Rightarrow> WriteStream \<Rightarrow> WriteStream" where
  "WriteFixed v st = st @ [v]"

text \<open>\<^verbatim>\<open>WriteBytes(addr, len)\<close> copies \<open>len\<close> bytes from \<open>addr\<close>.\<close>

definition WriteBytes :: "byte list \<Rightarrow> nat \<Rightarrow> WriteStream \<Rightarrow> WriteStream" where
  "WriteBytes addr len st = st @ take len addr"

text \<open>
  \<^verbatim>\<open>WriteStreamBase::WriteInternal<T>\<close> for an unsigned \<open>T\<close>: the do-while loop, one
  unfolding per iteration. \<open>remainder >>= 7\<close> is a logical shift on an unsigned type.
\<close>

function WriteInternal_unsigned :: "'a::len word \<Rightarrow> WriteStream \<Rightarrow> WriteStream" where
  "WriteInternal_unsigned remainder st =
     (let part = ucast remainder AND kDataByteMask;
          remainder' = drop_bit kDataBitsPerByte remainder;
          is_last_part = (remainder' = 0)
      in if \<not> is_last_part
         then WriteInternal_unsigned remainder' (WriteByte (part OR kMoreDataMask) st)
         else WriteByte part st)"
  by pat_completeness auto
termination
proof (relation "measure (\<lambda>(r, st). unat r)")
  show "wf (measure (\<lambda>(r :: 'a word, st :: WriteStream). unat r))"
    by simp
next
  fix remainder :: "'a word" and st :: WriteStream and part :: byte
    and remainder' :: "'a word" and is_last_part
  assume r: "remainder' = drop_bit kDataBitsPerByte remainder"
    and l: "is_last_part = (remainder' = 0)" and n: "\<not> is_last_part"
  from r l n have "drop_bit 7 remainder \<noteq> 0"
    by (simp add: kDataBitsPerByte_def)
  then have "unat remainder \<noteq> 0"
    by (auto simp: unat_eq_0)
  then have "unat remainder div 128 < unat remainder"
    by simp
  moreover have "unat (drop_bit 7 remainder) = unat remainder div 128"
    unfolding unat_drop_bit_eq by (simp add: drop_bit_eq_div)
  ultimately have "unat (drop_bit 7 remainder) < unat remainder"
    by simp
  with r show "((remainder', WriteByte (part OR kMoreDataMask) st), (remainder, st))
      \<in> measure (\<lambda>(r, st). unat r)"
    by (simp add: kDataBitsPerByte_def)
qed

declare WriteInternal_unsigned.simps [simp del]

text \<open>
  \<^verbatim>\<open>WriteInternal<T>\<close> for a signed \<open>T\<close>: \<open>remainder >>= 7\<close> is an arithmetic shift, and
  \<open>remainder & kDataByteMask\<close> is taken after the integral promotion of \<open>remainder\<close>,
  which extends its sign. \<open>~static_cast<T>(0)\<close> is the word of all ones.
\<close>

function WriteInternal_signed :: "'a::len word \<Rightarrow> WriteStream \<Rightarrow> WriteStream" where
  "WriteInternal_signed remainder st =
     (let part = scast remainder AND kDataByteMask;
          remainder' = signed_drop_bit kDataBitsPerByte remainder;
          is_last_part = ((remainder' = 0 \<and> part AND kSignMask = 0) \<or>
                          (remainder' = NOT 0 \<and> part AND kSignMask \<noteq> 0))
      in if \<not> is_last_part
         then WriteInternal_signed remainder' (WriteByte (part OR kMoreDataMask) st)
         else WriteByte part st)"
  by pat_completeness auto
termination
proof (relation "measure (\<lambda>(r, st). nat \<bar>sint r\<bar>)")
  show "wf (measure (\<lambda>(r :: 'a word, st :: WriteStream). nat \<bar>sint r\<bar>))"
    by simp
next
  fix remainder :: "'a word" and st :: WriteStream and part :: byte
    and remainder' :: "'a word" and is_last_part
  assume p: "part = scast remainder AND kDataByteMask"
    and r: "remainder' = signed_drop_bit kDataBitsPerByte remainder"
    and l: "is_last_part = ((remainder' = 0 \<and> part AND kSignMask = 0) \<or>
                            (remainder' = NOT 0 \<and> part AND kSignMask \<noteq> 0))"
    and n: "\<not> is_last_part"
  have "remainder \<noteq> 0"
    using p r l n by (auto simp: kDataBitsPerByte_def kDataByteMask_def kSignMask_def)
  moreover have "remainder \<noteq> - 1"
    using p r l n by (auto simp: kDataBitsPerByte_def kDataByteMask_def kSignMask_def)
  ultimately have "sint remainder \<noteq> 0" "sint remainder \<noteq> - 1"
    by (auto simp: signed_eq_0_iff) (metis sint_n1 signed_word_eqI)
  then have "\<bar>sint remainder div 128\<bar> < \<bar>sint remainder\<bar>"
    by linarith
  then have "nat \<bar>sint (signed_drop_bit 7 remainder)\<bar> < nat \<bar>sint remainder\<bar>"
    by (simp add: sint_signed_drop_bit_eq drop_bit_eq_div)
  with r show "((remainder', WriteByte (part OR kMoreDataMask) st), (remainder, st))
      \<in> measure (\<lambda>(r, st). nat \<bar>sint r\<bar>)"
    by (simp add: kDataBitsPerByte_def)
qed

declare WriteInternal_signed.simps [simp del]

text \<open>
  \<^verbatim>\<open>WriteUnsigned<T>\<close>: for an unsigned \<open>T\<close> the assertion \<open>value >= 0\<close> cannot fail;
  for a signed \<open>T\<close> it can, and the value is then reinterpreted as unsigned.
\<close>

definition WriteUnsigned :: "'a::len word \<Rightarrow> WriteStream \<Rightarrow> WriteStream" where
  "WriteUnsigned v st = WriteInternal_unsigned v st"

definition WriteUnsigned_of_signed :: "'a::len word \<Rightarrow> WriteStream \<Rightarrow> error + WriteStream" where
  "WriteUnsigned_of_signed v st =
     (if sint v < 0 then Inl AssertionFailed else Inr (WriteUnsigned v st))"

text \<open>\<^verbatim>\<open>Write<T>\<close>: SLEB128, whether or not \<open>T\<close> is signed.\<close>

definition Write :: "'a::len word \<Rightarrow> WriteStream \<Rightarrow> WriteStream" where
  "Write v st = WriteInternal_signed v st"

text \<open>
  \<^verbatim>\<open>ReadStream::ReadInternal<int64_t>\<close>. The stream is the list of the bytes from
  \<^verbatim>\<open>current_\<close> to \<^verbatim>\<open>end_\<close>; the result holds the value and the bytes left. The loop
  carries \<open>r\<close> and \<open>s\<close> and returns them with the last byte read. \<open>s\<close> is a
  \<^verbatim>\<open>uint8_t\<close>, and shifting the 64-bit \<open>Unsigned\<close> by 64 or more is undefined.
\<close>

fun ReadInternal_loop ::
  "64 word \<Rightarrow> byte \<Rightarrow> byte list \<Rightarrow> error + (64 word \<times> byte \<times> byte \<times> byte list)" where
  "ReadInternal_loop r s [] = Inl AssertionFailed"
| "ReadInternal_loop r s (b # c) =
     (if 64 \<le> unat s then Inl UndefinedShift
      else let r' = r OR push_bit (unat s) (ucast (b AND kDataByteMask));
               s' = s + of_nat kDataBitsPerByte
           in if b AND kMoreDataMask \<noteq> 0 then ReadInternal_loop r' s' c
              else Inr (r', s', b, c))"

definition ReadInternal :: "byte list \<Rightarrow> error + (64 word \<times> byte list)" where
  "ReadInternal current =
     (case ReadInternal_loop 0 0 current of
        Inl e \<Rightarrow> Inl e
      | Inr (r, s, b, c) \<Rightarrow>
          let sign_bits =
                (if b AND kSignMask \<noteq> 0 \<and> unat s < 64
                 then NOT (push_bit (unat s) 1 - 1) else 0)
          in Inr (r OR sign_bits, c))"

text \<open>
  Two notions in the words of the specification, to state the laws of the encodings
  against. \<open>uleb128 n\<close> is ``7 data bits per byte, low-endian, high bit set on all bytes
  except the last'' for a natural number. \<open>sleb_fits k x\<close> says that \<open>k\<close> groups of 7 bits
  hold \<open>x\<close> in two's complement, so that the top bit of the last group is the sign of \<open>x\<close>.
\<close>

function uleb128 :: "nat \<Rightarrow> byte list" where
  "uleb128 n = (if n < 128 then [of_nat n] else of_nat (n mod 128 + 128) # uleb128 (n div 128))"
  by pat_completeness auto
termination
  by (relation "measure id") auto

declare uleb128.simps [simp del]

definition sleb_fits :: "nat \<Rightarrow> int \<Rightarrow> bool" where
  "sleb_fits k x \<longleftrightarrow> 0 < k \<and> - (2 ^ (7 * k - 1)) \<le> x \<and> x < 2 ^ (7 * k - 1)"

text \<open>
  The exit test of the loop of \<^verbatim>\<open>WriteInternal<int64_t>\<close>, read on the bits of \<open>remainder\<close>
  before the shift: bit 6 of \<open>remainder\<close> is the sign bit of the part.
\<close>

definition is_last_part :: "64 word \<Rightarrow> bool" where
  "is_last_part remainder \<longleftrightarrow>
     (signed_drop_bit 7 remainder = 0 \<and> \<not> bit remainder 6) \<or>
     (signed_drop_bit 7 remainder = - 1 \<and> bit remainder 6)"

section \<open>The output protocol of \<^verbatim>\<open>assembler_wasm.cc\<close>\<close>

text \<open>
  Every \<^verbatim>\<open>Output\<close> method has a variable \<^verbatim>\<open>stream\<close> that points to the stream being
  written. \<open>stream\<close> is the stream it points to, and \<open>scopes\<close> holds, innermost first, the
  \<^verbatim>\<open>old_stream_\<close> of each \<^verbatim>\<open>PushBytecountFrontScope\<close> that is alive: the streams that the
  scopes have masked. The \<^verbatim>\<open>new_stream_\<close> of the innermost scope is \<open>stream\<close> itself.
\<close>

record OutputState =
  stream :: WriteStream
  scopes :: "WriteStream list"

text \<open>
  An \<^verbatim>\<open>Output\<close> method returns the state it leaves, or aborts the process: then the
  result holds the failure and the state at that moment.
\<close>

type_synonym aborted = "error \<times> OutputState"

definition then_do :: "'e + 'a \<Rightarrow> ('a \<Rightarrow> 'e + 'b) \<Rightarrow> 'e + 'b" where
  "then_do m f = (case m of Inl e \<Rightarrow> Inl e | Inr x \<Rightarrow> f x)"

text \<open>A range-based \<^verbatim>\<open>for\<close> loop whose body may abort.\<close>

fun for_each :: "('a \<Rightarrow> 's \<Rightarrow> 'e + 's) \<Rightarrow> 'a list \<Rightarrow> 's \<Rightarrow> 'e + 's" where
  "for_each body [] os = Inr os"
| "for_each body (x # xs) os = then_do (body x os) (for_each body xs)"

definition WRITE_BYTE :: "byte \<Rightarrow> OutputState \<Rightarrow> OutputState" where
  "WRITE_BYTE m os = os\<lparr>stream := WriteFixed m (stream os)\<rparr>"

definition WRITE_UNSIGNED :: "'a::len word \<Rightarrow> OutputState \<Rightarrow> OutputState" where
  "WRITE_UNSIGNED m os = os\<lparr>stream := WriteUnsigned m (stream os)\<rparr>"

text \<open>
  \<^verbatim>\<open>WRITE_UNSIGNED\<close> of the \<^verbatim>\<open>length()\<close> of a growable array, an \<^verbatim>\<open>intptr_t\<close>: the signed
  instance of \<^verbatim>\<open>WriteUnsigned\<close>.
\<close>

definition WRITE_UNSIGNED_length :: "nat \<Rightarrow> OutputState \<Rightarrow> aborted + OutputState" where
  "WRITE_UNSIGNED_length n os =
     (case WriteUnsigned_of_signed (of_nat n :: 64 word) (stream os) of
        Inl e \<Rightarrow> Inl (e, os)
      | Inr st \<Rightarrow> Inr (os\<lparr>stream := st\<rparr>))"

definition WRITE_SIGNED :: "'a::len word \<Rightarrow> OutputState \<Rightarrow> OutputState" where
  "WRITE_SIGNED m os = os\<lparr>stream := Write m (stream os)\<rparr>"

text \<open>
  \<^verbatim>\<open>PushBytecountFrontScope\<close>. The constructor keeps the current stream in \<^verbatim>\<open>old_stream_\<close>
  and points \<^verbatim>\<open>stream\<close> to a new stream of initial size 16. The destructor writes the byte
  count and the bytes of the new stream to \<^verbatim>\<open>old_stream_\<close> and points \<^verbatim>\<open>stream\<close> back to
  it. A destructor runs only for a constructed scope; with no scope alive nothing happens.
\<close>

definition PushBytecountFrontScope_ctor :: "OutputState \<Rightarrow> OutputState" where
  "PushBytecountFrontScope_ctor os =
     \<lparr>stream = WriteStream_ctor 16, scopes = stream os # scopes os\<rparr>"

definition PushBytecountFrontScope_dtor :: "OutputState \<Rightarrow> aborted + OutputState" where
  "PushBytecountFrontScope_dtor os =
     (case scopes os of
        [] \<Rightarrow> Inr os
      | old_stream # enclosing \<Rightarrow>
          let replacement_buffer = stream os;
              n = bytes_written (stream os)
          in (case WriteUnsigned_of_signed n old_stream of
                Inl e \<Rightarrow> Inl (e, os)
              | Inr st \<Rightarrow> Inr \<lparr>stream = WriteBytes replacement_buffer (unat n) st,
                               scopes = enclosing\<rparr>))"

text \<open>
  \<^verbatim>\<open>WRITE_BYTECOUNT()\<close> opens a scope that lasts to the end of the enclosing block:
  \<open>WRITE_BYTECOUNT block\<close> runs the rest of the block inside the scope and then the
  destructor. \<^verbatim>\<open>FATAL\<close> and a failed assertion abort the process, and no destructor runs.
\<close>

definition WRITE_BYTECOUNT ::
  "(OutputState \<Rightarrow> aborted + OutputState) \<Rightarrow> OutputState \<Rightarrow> aborted + OutputState" where
  "WRITE_BYTECOUNT block os =
     then_do (block (PushBytecountFrontScope_ctor os)) PushBytecountFrontScope_dtor"

section \<open>S-expressions\<close>

text \<open>
  Modelled from the spec: \<^verbatim>\<open>SExpSymbol\<close>, \<^verbatim>\<open>SExpInteger\<close> and \<^verbatim>\<open>SExpList\<close> are declared
  outside the sources at hand; the text format is ``a tree of atoms (symbols and integers)
  and lists''. \<^verbatim>\<open>Add\<close> appends to a list. \<^verbatim>\<open>OS::SCreate\<close> is \<^verbatim>\<open>printf\<close> into a new
  string: \<^verbatim>\<open>%s\<close> copies its argument, and \<^verbatim>\<open>Pu32\<close> prints an unsigned number in decimal.
\<close>

datatype SExpression =
    SExpSymbol string
  | SExpInteger int
  | SExpList "SExpression list"

fun Add :: "SExpression \<Rightarrow> SExpression \<Rightarrow> SExpression" where
  "Add x (SExpList xs) = SExpList (xs @ [x])"
| "Add x atom = atom"

function Pu32 :: "nat \<Rightarrow> string" where
  "Pu32 n = (if n < 10 then [char_of (48 + n)]
             else Pu32 (n div 10) @ [char_of (48 + n mod 10)])"
  by pat_completeness auto
termination
  by (relation "measure id") auto

declare Pu32.simps [simp del]

section \<open>The type model\<close>

text \<open>
  Modelled from the spec: the classes are declared in \<^verbatim>\<open>assembler_wasm.h\<close>, which is not
  among the sources. Their fields are the ones that \<^verbatim>\<open>assembler_wasm.cc\<close> reads and
  initialises, with the types of section 3 of the specification. A pointer that the code
  tests against or sets to \<^verbatim>\<open>nullptr\<close> is an option; the other pointers hold their
  target. A pointer to a composite type is used only to read the target's \<^verbatim>\<open>index()\<close>,
  which is fixed at construction, and is modelled by that index, a 32-bit number.
  Back pointers (a field's struct, a local's function) and the zone are left out.
\<close>

datatype Kind_NumType = kI32 | kI64 | kF32 | kF64 | kV128

datatype Kind_HeapType = kFunc | kExtern | kTypeidx | kAny | kEq | kI31

datatype HeapType = HeapType Kind_HeapType "32 word option"

fun HeapType_kind :: "HeapType \<Rightarrow> Kind_HeapType" where
  "HeapType_kind (HeapType kind def_type) = kind"

datatype ValueType =
    NumType Kind_NumType
  | RefType bool "HeapType option"
  | Rtt "32 word" HeapType

datatype PackedType = kNoType | kI8 | kI16

datatype FieldType = FieldType "ValueType option" PackedType bool

text \<open>
  Modelled from the spec: the two constructors of \<^verbatim>\<open>FieldType\<close>, which the header
  defines. The storage is ``either a full \<open>ValueType\<close> or a packed storage tag'': the
  constructor from a value type leaves the packed type \<open>kNoType\<close>, the one from a packed
  type leaves the value type \<^verbatim>\<open>nullptr\<close>.
\<close>

definition FieldType_of_value :: "ValueType \<Rightarrow> bool \<Rightarrow> FieldType" where
  "FieldType_of_value value_type mut = FieldType (Some value_type) kNoType mut"

definition FieldType_of_packed :: "PackedType \<Rightarrow> bool \<Rightarrow> FieldType" where
  "FieldType_of_packed packed_type mut = FieldType None packed_type mut"

text \<open>\<open>Field\<close> and \<open>If\<close> are constants of HOL; the constructors carry a prime.\<close>

datatype Field = Field' FieldType "32 word"

datatype DefType =
    FuncType "32 word" "ValueType list" ValueType
  | StructType "32 word" "Field list"
  | ArrayType "32 word" FieldType

fun index :: "DefType \<Rightarrow> 32 word" where
  "index (FuncType i param_types result_type) = i"
| "index (StructType i field_list) = i"
| "index (ArrayType i field_type) = i"

datatype Kind_Local = kLocal | kParam

datatype Local = Local Kind_Local ValueType string "32 word"

fun kind :: "Local \<Rightarrow> Kind_Local" where
  "kind (Local k t n i) = k"

fun name :: "Local \<Rightarrow> string" where
  "name (Local k t n i) = n"

fun Local_type :: "Local \<Rightarrow> ValueType" where
  "Local_type (Local k t n i) = t"

datatype Instruction =
    LocalGet Local
  | LocalSet Local
  | Int32Add
  | Constant "32 word"
  | If' "Instruction list" "Instruction list"

type_synonym InstructionList = "Instruction list"

text \<open>
  A name cannot end in an underscore: the fields \<^verbatim>\<open>locals_\<close> and \<^verbatim>\<open>body_\<close> lose it, and
  the others are named after their class.
\<close>

record Function =
  Function_name :: string
  Function_index :: "32 word"
  Function_type :: "32 word"
  locals :: "Local list"
  body :: "InstructionList option"

record WasmModuleBuilder =
  builder_types :: "DefType list"
  builder_functions :: "Function list"

subsection \<open>Value types\<close>

fun NumType_Serialize :: "Kind_NumType \<Rightarrow> SExpression" where
  "NumType_Serialize kI32 = SExpSymbol ''i32''"
| "NumType_Serialize kI64 = SExpSymbol ''i64''"
| "NumType_Serialize kF32 = SExpSymbol ''f32''"
| "NumType_Serialize kF64 = SExpSymbol ''f64''"
| "NumType_Serialize kV128 = SExpSymbol ''v128''"

fun NumType_OutputBinary :: "Kind_NumType \<Rightarrow> OutputState \<Rightarrow> OutputState" where
  "NumType_OutputBinary kI32 os = WRITE_BYTE 0x7F os"
| "NumType_OutputBinary kI64 os = WRITE_BYTE 0x7E os"
| "NumType_OutputBinary kF32 os = WRITE_BYTE 0x7D os"
| "NumType_OutputBinary kF64 os = WRITE_BYTE 0x7C os"
| "NumType_OutputBinary kV128 os = WRITE_BYTE 0x7B os"

fun HeapType_Serialize :: "HeapType \<Rightarrow> error + SExpression" where
  "HeapType_Serialize (HeapType kFunc def_type) = Inr (SExpSymbol ''func'')"
| "HeapType_Serialize (HeapType kExtern def_type) = Inr (SExpSymbol ''extern'')"
| "HeapType_Serialize (HeapType kTypeidx def_type) =
     (case def_type of None \<Rightarrow> Inl NullDereference
      | Some i \<Rightarrow> Inr (SExpInteger (uint i)))"
| "HeapType_Serialize (HeapType kAny def_type) = Inr (SExpSymbol ''any'')"
| "HeapType_Serialize (HeapType kEq def_type) = Inr (SExpSymbol ''eq'')"
| "HeapType_Serialize (HeapType kI31 def_type) = Inr (SExpSymbol ''i31'')"

text \<open>
  The integer literals of \<^verbatim>\<open>WRITE_SIGNED\<close> are of type \<^verbatim>\<open>int\<close>, 32 bits. In the \<open>kAny\<close>
  case \<^verbatim>\<open>FATAL\<close> comes first and the \<^verbatim>\<open>WRITE_SIGNED(-0x12)\<close> after it is never reached.
\<close>

fun HeapType_OutputBinary :: "HeapType \<Rightarrow> OutputState \<Rightarrow> aborted + OutputState" where
  "HeapType_OutputBinary (HeapType kFunc def_type) os = Inr (WRITE_SIGNED (- 0x10 :: 32 word) os)"
| "HeapType_OutputBinary (HeapType kExtern def_type) os = Inr (WRITE_SIGNED (- 0x11 :: 32 word) os)"
| "HeapType_OutputBinary (HeapType kTypeidx def_type) os =
     (case def_type of None \<Rightarrow> Inl (NullDereference, os)
      | Some i \<Rightarrow> Inr (WRITE_SIGNED i os))"
| "HeapType_OutputBinary (HeapType kAny def_type) os =
     Inl (Fatal ''any/anyref not implemented by V8'', os)"
| "HeapType_OutputBinary (HeapType kEq def_type) os = Inr (WRITE_SIGNED (- 0x13 :: 32 word) os)"
| "HeapType_OutputBinary (HeapType kI31 def_type) os = Inr (WRITE_SIGNED (- 0x16 :: 32 word) os)"

text \<open>
  \<^verbatim>\<open>RefType::Serialize\<close> and \<^verbatim>\<open>RefType::OutputBinary\<close>: the assertion, the shorthand
  notations, then the general case.
\<close>

definition RefType_Serialize :: "bool \<Rightarrow> HeapType option \<Rightarrow> error + SExpression" where
  "RefType_Serialize nullable heap_type =
     (case heap_type of None \<Rightarrow> Inl AssertionFailed
      | Some h \<Rightarrow>
          if \<not> nullable \<and> HeapType_kind h = kI31 then Inr (SExpSymbol ''i31ref'')
          else if nullable \<and> HeapType_kind h = kFunc then Inr (SExpSymbol ''funcref'')
          else if nullable \<and> HeapType_kind h = kExtern then Inr (SExpSymbol ''externref'')
          else if nullable \<and> HeapType_kind h = kAny then Inr (SExpSymbol ''anyref'')
          else if nullable \<and> HeapType_kind h = kEq then Inr (SExpSymbol ''eqref'')
          else
            let sexp = SExpList [];
                sexp = Add (SExpSymbol ''ref'') sexp;
                sexp = (if nullable then Add (SExpSymbol ''null'') sexp else sexp)
            in then_do (HeapType_Serialize h) (\<lambda>x. Inr (Add x sexp)))"

definition RefType_OutputBinary ::
  "bool \<Rightarrow> HeapType option \<Rightarrow> OutputState \<Rightarrow> aborted + OutputState" where
  "RefType_OutputBinary nullable heap_type os =
     (case heap_type of None \<Rightarrow> Inl (AssertionFailed, os)
      | Some h \<Rightarrow>
          if \<not> nullable \<and> HeapType_kind h = kI31 then Inr (WRITE_SIGNED (- 0x16 :: 32 word) os)
          else if nullable \<and> HeapType_kind h \<in> {kFunc, kExtern, kAny, kEq}
          then HeapType_OutputBinary h os
          else
            let os = (if nullable then WRITE_SIGNED (- 0x14 :: 32 word) os
                      else WRITE_SIGNED (- 0x15 :: 32 word) os)
            in HeapType_OutputBinary h os)"

fun ValueType_Serialize :: "ValueType \<Rightarrow> error + SExpression" where
  "ValueType_Serialize (NumType k) = Inr (NumType_Serialize k)"
| "ValueType_Serialize (RefType nullable heap_type) = RefType_Serialize nullable heap_type"
| "ValueType_Serialize (Rtt depth heap_type) =
     (let sexp = SExpList [];
          sexp = Add (SExpSymbol ''rtt'') sexp;
          sexp = Add (SExpInteger (uint depth)) sexp
      in then_do (HeapType_Serialize heap_type) (\<lambda>x. Inr (Add x sexp)))"

fun ValueType_OutputBinary :: "ValueType \<Rightarrow> OutputState \<Rightarrow> aborted + OutputState" where
  "ValueType_OutputBinary (NumType k) os = Inr (NumType_OutputBinary k os)"
| "ValueType_OutputBinary (RefType nullable heap_type) os =
     RefType_OutputBinary nullable heap_type os"
| "ValueType_OutputBinary (Rtt depth heap_type) os =
     (let os = WRITE_SIGNED (- 0x17 :: 32 word) os;
          os = WRITE_UNSIGNED depth os
      in HeapType_OutputBinary heap_type os)"

subsection \<open>Field types and composite types\<close>

text \<open>A loop of \<^verbatim>\<open>sexp->Add(x->Serialize(zone))\<close> over a growable array.\<close>

definition Add_each ::
  "('a \<Rightarrow> error + SExpression) \<Rightarrow> 'a list \<Rightarrow> SExpression \<Rightarrow> error + SExpression" where
  "Add_each serialize xs sexp =
     for_each (\<lambda>x sexp. then_do (serialize x) (\<lambda>y. Inr (Add y sexp))) xs sexp"

fun FieldType_Serialize :: "FieldType \<Rightarrow> error + SExpression" where
  "FieldType_Serialize (FieldType value_type packed_type mut) =
     then_do
       (case packed_type of
          kNoType \<Rightarrow>
            (case value_type of None \<Rightarrow> Inl NullDereference
             | Some v \<Rightarrow> ValueType_Serialize v)
        | kI8 \<Rightarrow> Inr (SExpSymbol ''i8'')
        | kI16 \<Rightarrow> Inr (SExpSymbol ''i16''))
       (\<lambda>sexp.
          if mut then
            let sexp_list = SExpList [];
                sexp_list = Add (SExpSymbol ''mut'') sexp_list;
                sexp_list = Add sexp sexp_list
            in Inr sexp_list
          else Inr sexp)"

fun FieldType_OutputBinary :: "FieldType \<Rightarrow> OutputState \<Rightarrow> aborted + OutputState" where
  "FieldType_OutputBinary (FieldType value_type packed_type mut) os =
     then_do
       (case packed_type of
          kNoType \<Rightarrow>
            (case value_type of None \<Rightarrow> Inl (NullDereference, os)
             | Some v \<Rightarrow> ValueType_OutputBinary v os)
        | kI8 \<Rightarrow> Inr (WRITE_BYTE 0x7A os)
        | kI16 \<Rightarrow> Inr (WRITE_BYTE 0x79 os))
       (\<lambda>os. if mut then Inr (WRITE_BYTE 0x01 os) else Inr (WRITE_BYTE 0x00 os))"

fun Field_Serialize :: "Field \<Rightarrow> error + SExpression" where
  "Field_Serialize (Field' field_type i) = FieldType_Serialize field_type"

fun Field_OutputBinary :: "Field \<Rightarrow> OutputState \<Rightarrow> aborted + OutputState" where
  "Field_OutputBinary (Field' field_type i) os = FieldType_OutputBinary field_type os"

text \<open>
  \<^verbatim>\<open>FuncType::Serialize\<close>, \<^verbatim>\<open>StructType::Serialize\<close> and \<^verbatim>\<open>ArrayType::Serialize\<close>, the three
  overriders of \<^verbatim>\<open>DefType::Serialize\<close>; likewise for \<^verbatim>\<open>OutputBinary\<close>.
\<close>

fun DefType_Serialize :: "DefType \<Rightarrow> error + SExpression" where
  "DefType_Serialize (FuncType i param_types result_type) =
     (let sexp = SExpList [];
          sexp = Add (SExpSymbol ''func'') sexp
      in then_do
           (Add_each
              (\<lambda>param_type.
                 let atom = SExpList [];
                     atom = Add (SExpSymbol ''param'') atom
                 in then_do (ValueType_Serialize param_type) (\<lambda>x. Inr (Add x atom)))
              param_types sexp)
           (\<lambda>sexp.
              let atom = SExpList [];
                  atom = Add (SExpSymbol ''result'') atom
              in then_do (ValueType_Serialize result_type)
                   (\<lambda>x. Inr (Add (Add x atom) sexp))))"
| "DefType_Serialize (StructType i field_list) =
     (let sexp = SExpList [];
          sexp = Add (SExpSymbol ''struct'') sexp
      in Add_each Field_Serialize field_list sexp)"
| "DefType_Serialize (ArrayType i field_type) =
     (let sexp = SExpList [];
          sexp = Add (SExpSymbol ''array'') sexp
      in then_do (FieldType_Serialize field_type) (\<lambda>x. Inr (Add x sexp)))"

fun DefType_OutputBinary :: "DefType \<Rightarrow> OutputState \<Rightarrow> aborted + OutputState" where
  "DefType_OutputBinary (FuncType i param_types result_type) os =
     (let os = WRITE_BYTE 0x60 os
      in then_do (WRITE_UNSIGNED_length (length param_types) os) (\<lambda>os.
         then_do (for_each ValueType_OutputBinary param_types os) (\<lambda>os.
         let os = WRITE_BYTE 1 os
         in ValueType_OutputBinary result_type os)))"
| "DefType_OutputBinary (StructType i field_list) os =
     (let os = WRITE_BYTE 0x5F os
      in then_do (WRITE_UNSIGNED_length (length field_list) os) (\<lambda>os.
         for_each Field_OutputBinary field_list os))"
| "DefType_OutputBinary (ArrayType i field_type) os =
     (let os = WRITE_BYTE 0x5E os
      in FieldType_OutputBinary field_type os)"

text \<open>
  \<^verbatim>\<open>FuncType::AddParam\<close> and \<^verbatim>\<open>StructType::AddField\<close> change the object they are called
  on; the model returns the object changed. \<^verbatim>\<open>AddField\<close> returns \<^verbatim>\<open>fields_.Last()\<close>, the
  field just added. A composite type of another class has no such method and stays as it is.
\<close>

fun AddParam :: "ValueType \<Rightarrow> DefType \<Rightarrow> DefType" where
  "AddParam param_type (FuncType i param_types result_type) =
     FuncType i (param_types @ [param_type]) result_type"
| "AddParam param_type t = t"

fun AddField :: "FieldType \<Rightarrow> DefType \<Rightarrow> DefType" where
  "AddField field_type (StructType i field_list) =
     StructType i (field_list @ [Field' field_type (of_nat (length field_list))])"
| "AddField field_type t = t"

definition AddField_of_value :: "ValueType \<Rightarrow> bool \<Rightarrow> DefType \<Rightarrow> DefType" where
  "AddField_of_value value_type mut t = AddField (FieldType_of_value value_type mut) t"

definition AddField_of_packed :: "PackedType \<Rightarrow> bool \<Rightarrow> DefType \<Rightarrow> DefType" where
  "AddField_of_packed packed_type mut t = AddField (FieldType_of_packed packed_type mut) t"

subsection \<open>Instructions\<close>

text \<open>
  \<^verbatim>\<open>If::Serialize\<close> is transcribed statement by statement: the symbol \<open>else\<close> and the
  serialised \<^verbatim>\<open>otherwise_\<close> are added to \<^verbatim>\<open>sexp_then\<close>, and \<^verbatim>\<open>sexp_otherwise\<close> is added
  to the result as it was created. \<^verbatim>\<open>InstructionList::Serialize\<close> is the loop that adds
  each instruction to a new list.
\<close>

fun Instruction_Serialize :: "Instruction \<Rightarrow> SExpression"
  and InstructionList_Serialize_loop :: "Instruction list \<Rightarrow> SExpression \<Rightarrow> SExpression" where
  "Instruction_Serialize (LocalGet local) = SExpSymbol (''local.get $'' @ name local)"
| "Instruction_Serialize (LocalSet local) = SExpSymbol (''local.set $'' @ name local)"
| "Instruction_Serialize Int32Add = SExpSymbol ''i32.add''"
| "Instruction_Serialize (Constant v) = SExpSymbol (''i32.const '' @ Pu32 (unat v))"
| "Instruction_Serialize (If' then_branch otherwise) =
     (let sexp_then = SExpList [];
          sexp_then = Add (SExpSymbol ''then'') sexp_then;
          sexp_then = Add (InstructionList_Serialize_loop then_branch (SExpList [])) sexp_then;
          sexp_otherwise = SExpList [];
          sexp_then = Add (SExpSymbol ''else'') sexp_then;
          sexp_then = Add (InstructionList_Serialize_loop otherwise (SExpList [])) sexp_then;
          sexp = SExpList [];
          sexp = Add (SExpSymbol ''if'') sexp;
          sexp = Add sexp_then sexp;
          sexp = Add sexp_otherwise sexp
      in sexp)"
| "InstructionList_Serialize_loop [] sexp = sexp"
| "InstructionList_Serialize_loop (instr # instrs) sexp =
     InstructionList_Serialize_loop instrs (Add (Instruction_Serialize instr) sexp)"

definition InstructionList_Serialize :: "InstructionList \<Rightarrow> SExpression" where
  "InstructionList_Serialize instructions = InstructionList_Serialize_loop instructions (SExpList [])"

fun Instruction_OutputBinary :: "Instruction \<Rightarrow> OutputState \<Rightarrow> aborted + OutputState" where
  "Instruction_OutputBinary (LocalGet local) os = Inl (Unimplemented, os)"
| "Instruction_OutputBinary (LocalSet local) os = Inl (Unimplemented, os)"
| "Instruction_OutputBinary Int32Add os = Inr (WRITE_BYTE 0x6A os)"
| "Instruction_OutputBinary (Constant v) os =
     (let os = WRITE_BYTE 0x41 os
      in Inr (WRITE_UNSIGNED v os))"
| "Instruction_OutputBinary (If' then_branch otherwise) os = Inl (Unimplemented, os)"

definition InstructionList_OutputBinary ::
  "InstructionList \<Rightarrow> OutputState \<Rightarrow> aborted + OutputState" where
  "InstructionList_OutputBinary instructions os = for_each Instruction_OutputBinary instructions os"

subsection \<open>Locals and functions\<close>

fun Local_Serialize :: "Local \<Rightarrow> error + SExpression" where
  "Local_Serialize (Local k t n i) =
     (let sexp = SExpList [];
          sexp = (case k of kLocal \<Rightarrow> Add (SExpSymbol ''local'') sexp
                  | kParam \<Rightarrow> Add (SExpSymbol ''param'') sexp);
          sexp = (if n \<noteq> [] then Add (SExpSymbol (''$'' @ n)) sexp else sexp)
      in then_do (ValueType_Serialize t) (\<lambda>x. Inr (Add x sexp)))"

definition Local_OutputBinary :: "Local \<Rightarrow> OutputState \<Rightarrow> aborted + OutputState" where
  "Local_OutputBinary local os = Inl (Unimplemented, os)"

definition Function_ctor :: "string \<Rightarrow> 32 word \<Rightarrow> 32 word \<Rightarrow> Function" where
  "Function_ctor n i t =
     \<lparr>Function_name = n, Function_index = i, Function_type = t, locals = [], body = None\<rparr>"

definition Function_Serialize :: "Function \<Rightarrow> error + SExpression" where
  "Function_Serialize f =
     (let sexp = SExpList [];
          sexp = Add (SExpSymbol ''func'') sexp;
          sexp = (if Function_name f \<noteq> [] then Add (SExpSymbol (''$'' @ Function_name f)) sexp
                  else sexp);
          sexp_type = SExpList [];
          sexp_type = Add (SExpSymbol ''type'') sexp_type;
          sexp_type = Add (SExpInteger (uint (Function_type f))) sexp_type;
          sexp = Add sexp_type sexp
      in then_do
           (for_each
              (\<lambda>it sexp.
                 if kind it = kLocal
                 then then_do (Local_Serialize it) (\<lambda>x. Inr (Add x sexp))
                 else Inr sexp)
              (locals f) sexp)
           (\<lambda>sexp.
              case body f of
                Some b \<Rightarrow> Inr (Add (InstructionList_Serialize b) sexp)
              | None \<Rightarrow> Inr (Add (SExpSymbol ''<missing body>'') sexp)))"

text \<open>
  \<^verbatim>\<open>Function::OutputBinary\<close>: the length of \<^verbatim>\<open>locals_\<close>, then for each element of
  \<^verbatim>\<open>locals_\<close> the byte 1 and its type, then the body if there is one (a missing body is
  only traced), then the byte \<open>0x0B\<close>.
\<close>

definition Function_OutputBinary :: "Function \<Rightarrow> OutputState \<Rightarrow> aborted + OutputState" where
  "Function_OutputBinary f os =
     then_do (WRITE_UNSIGNED_length (length (locals f)) os) (\<lambda>os.
     then_do
       (for_each
          (\<lambda>local os.
             let os = WRITE_BYTE 1 os
             in ValueType_OutputBinary (Local_type local) os)
          (locals f) os) (\<lambda>os.
     then_do
       (case body f of
          Some b \<Rightarrow> InstructionList_OutputBinary b os
        | None \<Rightarrow> Inr os) (\<lambda>os.
     Inr (WRITE_BYTE 0x0B os))))"

text \<open>
  \<^verbatim>\<open>Function::AddLocal\<close> returns \<^verbatim>\<open>locals_.Last()\<close>, the local just added; the model
  returns the function changed, or the failed assertion.
\<close>

definition AddLocal :: "Kind_Local \<Rightarrow> ValueType \<Rightarrow> string \<Rightarrow> Function \<Rightarrow> error + Function" where
  "AddLocal k t n f =
     (if k = kLocal \<or> locals f = [] \<or> kind (last (locals f)) = kParam
      then Inr (f\<lparr>locals := locals f @ [Local k t n (of_nat (length (locals f)))]\<rparr>)
      else Inl AssertionFailed)"

fun GetLocalByName_loop :: "Local list \<Rightarrow> string \<Rightarrow> error + Local" where
  "GetLocalByName_loop [] n =
     Inl (Fatal ''Local variable by name lookup returned no matching result.'')"
| "GetLocalByName_loop (it # its) n = (if name it = n then Inr it else GetLocalByName_loop its n)"

definition GetLocalByName :: "string \<Rightarrow> Function \<Rightarrow> error + Local" where
  "GetLocalByName n f = GetLocalByName_loop (locals f) n"

definition GetLocalByIndex :: "int \<Rightarrow> Function \<Rightarrow> error + Local" where
  "GetLocalByIndex i f =
     (if 0 \<le> i \<and> i < int (length (locals f)) then Inr (locals f ! nat i)
      else Inl AssertionFailed)"

definition MakeNewBody :: "Function \<Rightarrow> Function" where
  "MakeNewBody f = f\<lparr>body := Some []\<rparr>"

text \<open>
  A sequence of \<^verbatim>\<open>AddLocal\<close> calls on one function, each with its kind, type and name; it
  stops at the first failed assertion.
\<close>

fun AddLocals :: "(Kind_Local \<times> ValueType \<times> string) list \<Rightarrow> Function \<Rightarrow> error + Function" where
  "AddLocals [] f = Inr f"
| "AddLocals ((k, t, n) # calls) f = then_do (AddLocal k t n f) (AddLocals calls)"

section \<open>The module builder\<close>

text \<open>
  The constructor: no types, no functions. The value types that the builder keeps as
  members are constants here.
\<close>

definition WasmModuleBuilder_ctor :: WasmModuleBuilder where
  "WasmModuleBuilder_ctor = \<lparr>builder_types = [], builder_functions = []\<rparr>"

definition funcref :: ValueType where
  "funcref = RefType True (Some (HeapType kFunc None))"

definition externref :: ValueType where
  "externref = RefType True (Some (HeapType kExtern None))"

definition anyref :: ValueType where
  "anyref = RefType True (Some (HeapType kAny None))"

definition eqref :: ValueType where
  "eqref = RefType True (Some (HeapType kEq None))"

definition i31ref :: ValueType where
  "i31ref = RefType False (Some (HeapType kI31 None))"

definition WasmModuleBuilder_Serialize :: "WasmModuleBuilder \<Rightarrow> error + SExpression" where
  "WasmModuleBuilder_Serialize b =
     (let sexp = SExpList [];
          sexp = Add (SExpSymbol ''module'') sexp
      in then_do
           (Add_each
              (\<lambda>def_type.
                 let sexp_type = SExpList [];
                     sexp_type = Add (SExpSymbol ''type'') sexp_type
                 in then_do (DefType_Serialize def_type) (\<lambda>x. Inr (Add x sexp_type)))
              (builder_types b) sexp)
           (Add_each Function_Serialize (builder_functions b)))"

definition OutputTypeSection :: "WasmModuleBuilder \<Rightarrow> OutputState \<Rightarrow> aborted + OutputState" where
  "OutputTypeSection b os =
     (let os = WRITE_BYTE 1 os
      in WRITE_BYTECOUNT
           (\<lambda>os. then_do (WRITE_UNSIGNED_length (length (builder_types b)) os)
                    (for_each DefType_OutputBinary (builder_types b)))
           os)"

definition OutputFunctionSection :: "WasmModuleBuilder \<Rightarrow> OutputState \<Rightarrow> aborted + OutputState" where
  "OutputFunctionSection b os =
     (let os = WRITE_BYTE 3 os
      in WRITE_BYTECOUNT
           (\<lambda>os. then_do (WRITE_UNSIGNED_length (length (builder_functions b)) os)
                    (for_each (\<lambda>function os. Inr (WRITE_UNSIGNED (Function_type function) os))
                       (builder_functions b)))
           os)"

definition OutputCodeSection :: "WasmModuleBuilder \<Rightarrow> OutputState \<Rightarrow> aborted + OutputState" where
  "OutputCodeSection b os =
     (let os = WRITE_BYTE 10 os
      in WRITE_BYTECOUNT
           (\<lambda>os. then_do (WRITE_UNSIGNED_length (length (builder_functions b)) os)
                    (for_each (\<lambda>function. WRITE_BYTECOUNT (Function_OutputBinary function))
                       (builder_functions b)))
           os)"

text \<open>
  \<^verbatim>\<open>WasmModuleBuilder::OutputBinary\<close> asserts that \<^verbatim>\<open>stream\<close> is not null; an output state
  always has its stream.
\<close>

definition WasmModuleBuilder_OutputBinary ::
  "WasmModuleBuilder \<Rightarrow> OutputState \<Rightarrow> aborted + OutputState" where
  "WasmModuleBuilder_OutputBinary b os =
     (let os = WRITE_BYTE 0x00 os;
          os = WRITE_BYTE 0x61 os;
          os = WRITE_BYTE 0x73 os;
          os = WRITE_BYTE 0x6D os;
          os = WRITE_BYTE 0x01 os;
          os = WRITE_BYTE 0x00 os;
          os = WRITE_BYTE 0x00 os;
          os = WRITE_BYTE 0x00 os
      in then_do (OutputTypeSection b os) (\<lambda>os.
         then_do (OutputFunctionSection b os) (\<lambda>os.
         OutputCodeSection b os)))"

subsection \<open>The zone\<close>

text \<open>
  Modelled from the spec: \<^verbatim>\<open>Zone\<close> and its placement \<^verbatim>\<open>new\<close> are declared outside the
  sources at hand. The zone is the ``arena / region allocator supplied by the embedder'':
  ``all owned objects are allocated from an arena supplied at construction'' and ``no
  individual object is freed''. Addresses count objects: the addresses below the position
  of the zone are in use, and \<^verbatim>\<open>new (zone) T(...)\<close> builds its object at the position and
  moves the position past it. A pointer to an object of the zone is the address of the
  object together with the object that is there. Addresses count the objects made by
  \<^verbatim>\<open>new\<close>: the backing store that a growable array takes from the zone belongs to the
  array, which is a list here.
\<close>

type_synonym address = nat

record Zone =
  Zone_position :: address

definition in_use :: "Zone \<Rightarrow> address \<Rightarrow> bool" where
  "in_use z a \<longleftrightarrow> a < Zone_position z"

type_synonym 'a pointer = "address \<times> 'a"

definition address_of :: "'a pointer \<Rightarrow> address" where
  "address_of p = fst p"

definition target :: "'a pointer \<Rightarrow> 'a" where
  "target p = snd p"

definition Zone_new :: "Zone \<Rightarrow> 'a \<Rightarrow> 'a pointer \<times> Zone" where
  "Zone_new z object = ((Zone_position z, object), z\<lparr>Zone_position := Suc (Zone_position z)\<rparr>)"

subsection \<open>The factory methods\<close>

text \<open>
  A factory method runs on the builder and on the zone that \<^verbatim>\<open>zone_\<close> points to, and gives
  the pointer it returns, the builder and the zone. \<^verbatim>\<open>types_.length()\<close> and
  \<^verbatim>\<open>functions_.length()\<close> are converted to the 32-bit index of the new object: the
  constructors of the composite types take an \<^verbatim>\<open>int\<close>, the one of \<^verbatim>\<open>Function\<close> a
  \<^verbatim>\<open>uint32_t\<close>. \<^verbatim>\<open>types_\<close> and \<^verbatim>\<open>functions_\<close> hold the objects registered, in the order of
  registration; an argument that is a pointer is given by its target. The constructor
  \<^verbatim>\<open>HeapType(DefType*)\<close> is defined in the header; modelled from the spec, it gives ``a
  concrete heap type referring to a composite'', of the kind \<open>kTypeidx\<close>.
\<close>

definition returned :: "'a pointer \<times> WasmModuleBuilder \<times> Zone \<Rightarrow> 'a pointer" where
  "returned r = fst r"

definition builder_after :: "'a pointer \<times> WasmModuleBuilder \<times> Zone \<Rightarrow> WasmModuleBuilder" where
  "builder_after r = fst (snd r)"

definition zone_after :: "'a pointer \<times> WasmModuleBuilder \<times> Zone \<Rightarrow> Zone" where
  "zone_after r = snd (snd r)"

definition MakeFieldType_of_value ::
  "ValueType \<Rightarrow> bool \<Rightarrow> WasmModuleBuilder \<Rightarrow> Zone \<Rightarrow>
     FieldType pointer \<times> WasmModuleBuilder \<times> Zone" where
  "MakeFieldType_of_value value_type mut b z =
     (case Zone_new z (FieldType_of_value value_type mut) of (p, z) \<Rightarrow> (p, b, z))"

definition MakeFieldType_of_packed ::
  "PackedType \<Rightarrow> bool \<Rightarrow> WasmModuleBuilder \<Rightarrow> Zone \<Rightarrow>
     FieldType pointer \<times> WasmModuleBuilder \<times> Zone" where
  "MakeFieldType_of_packed packed_type mut b z =
     (case Zone_new z (FieldType_of_packed packed_type mut) of (p, z) \<Rightarrow> (p, b, z))"

definition MakeArrayType ::
  "FieldType \<Rightarrow> WasmModuleBuilder \<Rightarrow> Zone \<Rightarrow> DefType pointer \<times> WasmModuleBuilder \<times> Zone" where
  "MakeArrayType field_type b z =
     (case Zone_new z (ArrayType (of_nat (length (builder_types b))) field_type) of
        (array_type, z) \<Rightarrow>
          (array_type, b\<lparr>builder_types := builder_types b @ [target array_type]\<rparr>, z))"

definition MakeArrayType_of_value ::
  "ValueType \<Rightarrow> bool \<Rightarrow> WasmModuleBuilder \<Rightarrow> Zone \<Rightarrow>
     DefType pointer \<times> WasmModuleBuilder \<times> Zone" where
  "MakeArrayType_of_value value_type mut b z =
     (case MakeFieldType_of_value value_type mut b z of (field_type, b, z) \<Rightarrow>
        MakeArrayType (target field_type) b z)"

definition MakeArrayType_of_packed ::
  "PackedType \<Rightarrow> bool \<Rightarrow> WasmModuleBuilder \<Rightarrow> Zone \<Rightarrow>
     DefType pointer \<times> WasmModuleBuilder \<times> Zone" where
  "MakeArrayType_of_packed packed_type mut b z =
     (case MakeFieldType_of_packed packed_type mut b z of (field_type, b, z) \<Rightarrow>
        MakeArrayType (target field_type) b z)"

definition MakeHeapType ::
  "DefType \<Rightarrow> WasmModuleBuilder \<Rightarrow> Zone \<Rightarrow> HeapType pointer \<times> WasmModuleBuilder \<times> Zone" where
  "MakeHeapType def_type b z =
     (case Zone_new z (HeapType kTypeidx (Some (index def_type))) of (p, z) \<Rightarrow> (p, b, z))"

definition MakeRefType ::
  "bool \<Rightarrow> HeapType option \<Rightarrow> WasmModuleBuilder \<Rightarrow> Zone \<Rightarrow>
     ValueType pointer \<times> WasmModuleBuilder \<times> Zone" where
  "MakeRefType nullable heap_type b z =
     (case Zone_new z (RefType nullable heap_type) of (p, z) \<Rightarrow> (p, b, z))"

definition MakeFuncType ::
  "ValueType \<Rightarrow> WasmModuleBuilder \<Rightarrow> Zone \<Rightarrow> DefType pointer \<times> WasmModuleBuilder \<times> Zone" where
  "MakeFuncType result_type b z =
     (case Zone_new z (FuncType (of_nat (length (builder_types b))) [] result_type) of
        (fct_type, z) \<Rightarrow>
          (fct_type, b\<lparr>builder_types := builder_types b @ [target fct_type]\<rparr>, z))"

definition MakeStructType ::
  "WasmModuleBuilder \<Rightarrow> Zone \<Rightarrow> DefType pointer \<times> WasmModuleBuilder \<times> Zone" where
  "MakeStructType b z =
     (case Zone_new z (StructType (of_nat (length (builder_types b))) []) of
        (str_type, z) \<Rightarrow>
          (str_type, b\<lparr>builder_types := builder_types b @ [target str_type]\<rparr>, z))"

definition AddFunction ::
  "string \<Rightarrow> DefType \<Rightarrow> WasmModuleBuilder \<Rightarrow> Zone \<Rightarrow>
     Function pointer \<times> WasmModuleBuilder \<times> Zone" where
  "AddFunction n t b z =
     (case Zone_new z (Function_ctor n (of_nat (length (builder_functions b))) (index t)) of
        (f, z) \<Rightarrow> (f, b\<lparr>builder_functions := builder_functions b @ [target f]\<rparr>, z))"

subsection \<open>Sequences of operations on a builder\<close>

text \<open>
  The operations that a client has on a builder and on the objects it has got from it.
  A handle to a registered composite type or function is the position of the object in
  \<^verbatim>\<open>types_\<close> or \<^verbatim>\<open>functions_\<close>: a method called through the handle changes the object at
  that position. A position that holds no object stands for no handle, and nothing happens.
  \<open>AddInstruction\<close> is one of \<^verbatim>\<open>AddLocalGet\<close>, \<^verbatim>\<open>AddLocalSet\<close>, \<^verbatim>\<open>AddInt32Add\<close>,
  \<^verbatim>\<open>AddConstant\<close> and \<^verbatim>\<open>AddIf\<close> on the body of a function. The zone belongs to the
  embedder, and the methods of the other classes and the embedder allocate from it too:
  an operation finds the zone in some state, which is given with the operation.
\<close>

datatype BuilderOp =
    Op_MakeFieldType_of_value ValueType bool
  | Op_MakeFieldType_of_packed PackedType bool
  | Op_MakeArrayType FieldType
  | Op_MakeArrayType_of_value ValueType bool
  | Op_MakeArrayType_of_packed PackedType bool
  | Op_MakeHeapType DefType
  | Op_MakeRefType bool "HeapType option"
  | Op_MakeFuncType ValueType
  | Op_MakeStructType
  | Op_AddFunction string DefType
  | Op_AddParam nat ValueType
  | Op_AddField nat FieldType
  | Op_AddLocal nat Kind_Local ValueType string
  | Op_MakeNewBody nat
  | Op_AddInstruction nat Instruction

definition on_type :: "nat \<Rightarrow> (DefType \<Rightarrow> DefType) \<Rightarrow> WasmModuleBuilder \<Rightarrow> WasmModuleBuilder" where
  "on_type p method b =
     (if p < length (builder_types b)
      then b\<lparr>builder_types := (builder_types b)[p := method (builder_types b ! p)]\<rparr>
      else b)"

definition on_function ::
  "nat \<Rightarrow> (Function \<Rightarrow> error + Function) \<Rightarrow> WasmModuleBuilder \<Rightarrow> error + WasmModuleBuilder" where
  "on_function p method b =
     (if p < length (builder_functions b)
      then then_do (method (builder_functions b ! p))
             (\<lambda>f. Inr (b\<lparr>builder_functions := (builder_functions b)[p := f]\<rparr>))
      else Inr b)"

definition AddInstruction :: "Instruction \<Rightarrow> Function \<Rightarrow> Function" where
  "AddInstruction instr f =
     (case body f of None \<Rightarrow> f | Some instructions \<Rightarrow> f\<lparr>body := Some (instructions @ [instr])\<rparr>)"

fun apply_op :: "BuilderOp \<Rightarrow> Zone \<Rightarrow> WasmModuleBuilder \<Rightarrow> error + WasmModuleBuilder" where
  "apply_op (Op_MakeFieldType_of_value value_type mut) z b =
     Inr (builder_after (MakeFieldType_of_value value_type mut b z))"
| "apply_op (Op_MakeFieldType_of_packed packed_type mut) z b =
     Inr (builder_after (MakeFieldType_of_packed packed_type mut b z))"
| "apply_op (Op_MakeArrayType field_type) z b = Inr (builder_after (MakeArrayType field_type b z))"
| "apply_op (Op_MakeArrayType_of_value value_type mut) z b =
     Inr (builder_after (MakeArrayType_of_value value_type mut b z))"
| "apply_op (Op_MakeArrayType_of_packed packed_type mut) z b =
     Inr (builder_after (MakeArrayType_of_packed packed_type mut b z))"
| "apply_op (Op_MakeHeapType def_type) z b = Inr (builder_after (MakeHeapType def_type b z))"
| "apply_op (Op_MakeRefType nullable heap_type) z b =
     Inr (builder_after (MakeRefType nullable heap_type b z))"
| "apply_op (Op_MakeFuncType result_type) z b = Inr (builder_after (MakeFuncType result_type b z))"
| "apply_op Op_MakeStructType z b = Inr (builder_after (MakeStructType b z))"
| "apply_op (Op_AddFunction n t) z b = Inr (builder_after (AddFunction n t b z))"
| "apply_op (Op_AddParam p param_type) z b = Inr (on_type p (AddParam param_type) b)"
| "apply_op (Op_AddField p field_type) z b = Inr (on_type p (AddField field_type) b)"
| "apply_op (Op_AddLocal p k t n) z b = on_function p (AddLocal k t n) b"
| "apply_op (Op_MakeNewBody p) z b = on_function p (\<lambda>f. Inr (MakeNewBody f)) b"
| "apply_op (Op_AddInstruction p instr) z b = on_function p (\<lambda>f. Inr (AddInstruction instr f)) b"

definition apply_ops ::
  "(BuilderOp \<times> Zone) list \<Rightarrow> WasmModuleBuilder \<Rightarrow> error + WasmModuleBuilder" where
  "apply_ops ops b = for_each (\<lambda>(op, z). apply_op op z) ops b"

text \<open>The operations that register a composite type, and the one that registers a function.\<close>

fun registers_type :: "BuilderOp \<Rightarrow> bool" where
  "registers_type (Op_MakeArrayType field_type) = True"
| "registers_type (Op_MakeArrayType_of_value value_type mut) = True"
| "registers_type (Op_MakeArrayType_of_packed packed_type mut) = True"
| "registers_type (Op_MakeFuncType result_type) = True"
| "registers_type Op_MakeStructType = True"
| "registers_type other = False"

fun registers_function :: "BuilderOp \<Rightarrow> bool" where
  "registers_function (Op_AddFunction n t) = True"
| "registers_function other = False"

text \<open>
  The position that a method called through a handle works on: a composite type for
  \<^verbatim>\<open>AddParam\<close> and \<^verbatim>\<open>AddField\<close>, a function for \<^verbatim>\<open>AddLocal\<close>, \<^verbatim>\<open>MakeNewBody\<close> and the
  methods that add an instruction.
\<close>

fun type_handle :: "BuilderOp \<Rightarrow> nat option" where
  "type_handle (Op_AddParam p param_type) = Some p"
| "type_handle (Op_AddField p field_type) = Some p"
| "type_handle other = None"

fun function_handle :: "BuilderOp \<Rightarrow> nat option" where
  "function_handle (Op_AddLocal p k t n) = Some p"
| "function_handle (Op_MakeNewBody p) = Some p"
| "function_handle (Op_AddInstruction p instr) = Some p"
| "function_handle other = None"

text \<open>
  The indices of the registered objects, read as positions: the claim is that they count
  up from 0.
\<close>

definition type_indices :: "WasmModuleBuilder \<Rightarrow> nat list" where
  "type_indices b = map (\<lambda>t. unat (index t)) (builder_types b)"

definition function_indices :: "WasmModuleBuilder \<Rightarrow> nat list" where
  "function_indices b = map (\<lambda>f. unat (Function_index f)) (builder_functions b)"

section \<open>The laws of the variable-length encodings\<close>

subsection \<open>The masks, bit by bit\<close>

lemma bit_kDataByteMask: "bit kDataByteMask n \<longleftrightarrow> n < 7"
proof -
  have "kDataByteMask = mask 7"
    by (simp add: kDataByteMask_def kDataBitsPerByte_def mask_eq_exp_minus_1)
  then have "bit kDataByteMask n \<longleftrightarrow> bit (mask 7 :: byte) n" by simp
  also have "\<dots> \<longleftrightarrow> n < 7" by (auto simp: bit_simps)
  finally show ?thesis .
qed

lemma bit_kMoreDataMask: "bit kMoreDataMask n \<longleftrightarrow> n = 7"
proof -
  have "kMoreDataMask = 2 ^ 7"
    by (simp add: kMoreDataMask_def kDataBitsPerByte_def)
  then have "bit kMoreDataMask n \<longleftrightarrow> bit ((2::byte) ^ 7) n" by simp
  also have "\<dots> \<longleftrightarrow> n = 7" by (simp only: bit_exp_iff) (auto simp: bit_simps)
  finally show ?thesis .
qed

lemma bit_kSignMask: "bit kSignMask n \<longleftrightarrow> n = 6"
proof -
  have "kSignMask = 2 ^ 6"
    by (simp add: kSignMask_def kDataBitsPerByte_def)
  then have "bit kSignMask n \<longleftrightarrow> bit ((2::byte) ^ 6) n" by simp
  also have "\<dots> \<longleftrightarrow> n = 6" by (simp only: bit_exp_iff) (auto simp: bit_simps)
  finally show ?thesis .
qed

lemmas bit_masks = bit_kDataByteMask bit_kMoreDataMask bit_kSignMask

lemma and_kSignMask: "(x :: byte) AND kSignMask \<noteq> 0 \<longleftrightarrow> bit x 6"
proof -
  have "x AND kSignMask = (if bit x 6 then kSignMask else 0)"
    by (rule bit_eqI) (auto simp: bit_masks bit_simps)
  moreover have "kSignMask \<noteq> 0"
    by (simp add: kSignMask_def kDataBitsPerByte_def)
  ultimately show ?thesis by simp
qed

lemma bit_signed_part: "bit ((scast (w :: 64 word) :: byte) AND kDataByteMask) n \<longleftrightarrow> n < 7 \<and> bit w n"
  by (auto simp: bit_masks bit_simps min_def)

lemma part_or_more_and_mask: "(((x :: byte) AND kDataByteMask) OR kMoreDataMask) AND kDataByteMask = (x AND kDataByteMask)"
  by (rule bit_eqI) (auto simp: bit_masks bit_simps)

lemma ucast_signed_part: "(ucast ((scast (w :: 64 word) :: byte) AND kDataByteMask) :: 64 word) = take_bit 7 w"
  by (rule bit_eqI) (auto simp: bit_masks bit_simps min_def)

subsection \<open>One iteration of the signed writer\<close>

lemma WriteInternal_signed_last: "is_last_part w \<Longrightarrow> WriteInternal_signed w st = st @ [scast w AND kDataByteMask]"
  by (subst WriteInternal_signed.simps)
     (auto simp: is_last_part_def Let_def and_kSignMask bit_signed_part kDataBitsPerByte_def WriteByte_def)

lemma WriteInternal_signed_more: "\<not> is_last_part w \<Longrightarrow> WriteInternal_signed w st =
    WriteInternal_signed (signed_drop_bit 7 w) (st @ [(scast w AND kDataByteMask) OR kMoreDataMask])"
  by (subst WriteInternal_signed.simps)
     (auto simp: is_last_part_def Let_def and_kSignMask bit_signed_part kDataBitsPerByte_def WriteByte_def)

lemma is_last_part_triv: "w = 0 \<or> w = - 1 \<Longrightarrow> is_last_part w"
  by (auto simp: is_last_part_def)

lemma signed_shift_decreases: "\<not> is_last_part w \<Longrightarrow> nat \<bar>sint (signed_drop_bit 7 w)\<bar> < nat \<bar>sint w\<bar>"
proof -
  assume "\<not> is_last_part w"
  then have "w \<noteq> 0" "w \<noteq> - 1" using is_last_part_triv by auto
  then have "sint w \<noteq> 0" "sint w \<noteq> - 1"
    by (auto simp: signed_eq_0_iff) (metis sint_n1 signed_word_eqI)
  then have "\<bar>sint w div 128\<bar> < \<bar>sint w\<bar>"
    by linarith
  then show ?thesis
    by (simp add: sint_signed_drop_bit_eq drop_bit_eq_div)
qed

lemma WriteInternal_signed_append: "WriteInternal_signed (w :: 64 word) st = st @ WriteInternal_signed w []"
proof (induction "nat \<bar>sint w\<bar>" arbitrary: w st rule: less_induct)
  case less
  show ?case
  proof (cases "is_last_part w")
    case True
    then show ?thesis by (simp add: WriteInternal_signed_last)
  next
    case False
    note ih = less [OF signed_shift_decreases [OF False]]
    show ?thesis
      using False ih [of "st @ [(scast w AND kDataByteMask) OR kMoreDataMask]"]
        ih [of "[(scast w AND kDataByteMask) OR kMoreDataMask]"]
      by (simp add: WriteInternal_signed_more [of w st] WriteInternal_signed_more [of w "[]"])
  qed
qed

subsection \<open>Reading back what the signed writer wrote\<close>

lemma is_last_part_top: "57 \<le> m \<Longrightarrow> is_last_part (signed_drop_bit m (v :: 64 word))"
proof -
  assume m: "57 \<le> m"
  have b: "bit (signed_drop_bit m v) 6 \<longleftrightarrow> bit v 63"
  proof (cases "m = 57")
    case True
    then show ?thesis by (simp add: bit_simps)
  next
    case False
    with m have "64 - m \<le> 6" by simp
    then show ?thesis by (simp add: bit_simps)
  qed
  from m have "signed_drop_bit (7 + m) v = (if bit v 63 then - 1 else 0)"
    by (simp add: signed_drop_bit_beyond)
  with b show ?thesis
    by (simp add: is_last_part_def)
qed

lemma accumulate_more: "m < 64 \<Longrightarrow>
  take_bit m (v :: 64 word) OR push_bit m (take_bit 7 (signed_drop_bit m v)) = take_bit (m + 7) v"
  by (rule bit_eqI) (auto simp: bit_simps)

lemma signed_shift_zero_bit: "signed_drop_bit m (v :: 64 word) = 0 \<Longrightarrow> m \<le> n \<Longrightarrow> n < 64 \<Longrightarrow> \<not> bit v n"
proof -
  assume z: "signed_drop_bit m v = 0" and mn: "m \<le> n" and n: "n < 64"
  then have "\<not> bit (signed_drop_bit m v) (n - m)" by simp
  with mn n show ?thesis by (auto simp: bit_simps split: if_splits)
qed

lemma signed_shift_ones_bit: "signed_drop_bit m (v :: 64 word) = - 1 \<Longrightarrow> m \<le> n \<Longrightarrow> n < 64 \<Longrightarrow> bit v n"
proof -
  assume z: "signed_drop_bit m v = - 1" and mn: "m \<le> n" and n: "n < 64"
  then have "bit (signed_drop_bit m v) (n - m)" by simp
  with mn n show ?thesis by (auto simp: bit_simps split: if_splits)
qed

lemma accumulate_last: 
  assumes m: "m < 64" and l: "is_last_part (signed_drop_bit m (v :: 64 word))"
  shows "take_bit m v OR push_bit m (take_bit 7 (signed_drop_bit m v)) OR
     (if bit (signed_drop_bit m v) 6 \<and> m + 7 < 64 then NOT (mask (m + 7)) else 0) = v"
proof (cases "bit (signed_drop_bit m v) 6")
  case True
  with l have o: "signed_drop_bit (m + 7) v = - 1" by (auto simp: is_last_part_def add.commute)
  show ?thesis
  proof (rule bit_eqI)
    fix n assume "possible_bit TYPE(64 word) n"
    then have n: "n < 64" by simp
    show "bit (take_bit m v OR push_bit m (take_bit 7 (signed_drop_bit m v)) OR
     (if bit (signed_drop_bit m v) 6 \<and> m + 7 < 64 then NOT (mask (m + 7)) else 0)) n = bit v n"
      using True n m signed_shift_ones_bit [OF o, of n]
      by (cases "m + 7 \<le> n") (auto simp: bit_simps)
  qed
next
  case False
  with l have o: "signed_drop_bit (m + 7) v = 0" by (auto simp: is_last_part_def add.commute)
  show ?thesis
  proof (rule bit_eqI)
    fix n assume "possible_bit TYPE(64 word) n"
    then have n: "n < 64" by simp
    show "bit (take_bit m v OR push_bit m (take_bit 7 (signed_drop_bit m v)) OR
     (if bit (signed_drop_bit m v) 6 \<and> m + 7 < 64 then NOT (mask (m + 7)) else 0)) n = bit v n"
      using False n m signed_shift_zero_bit [OF o, of n]
      by (cases "m + 7 \<le> n") (auto simp: bit_simps)
  qed
qed

lemma unat_byte_of_nat: "m < 64 \<Longrightarrow> unat (of_nat m :: byte) = m"
  by (simp add: unat_of_nat)

lemma part_and_more: "((scast (w :: 64 word) :: byte) AND kDataByteMask) AND kMoreDataMask = 0"
  by (rule bit_eqI) (auto simp: bit_masks bit_simps)

lemma part_or_more_and_more: "(((scast (w :: 64 word) :: byte) AND kDataByteMask) OR kMoreDataMask) AND kMoreDataMask \<noteq> 0"
  by (simp add: kMoreDataMask_def kDataBitsPerByte_def)

lemma part_and_mask: "((scast (w :: 64 word) :: byte) AND kDataByteMask) AND kDataByteMask = scast w AND kDataByteMask"
  by (rule bit_eqI) (auto simp: bit_simps)

lemma part_and_sign: "((scast (w :: 64 word) :: byte) AND kDataByteMask) AND kSignMask \<noteq> 0 \<longleftrightarrow> bit w 6"
  by (simp add: and_kSignMask bit_signed_part)

lemma unat_byte_add7: "m < 64 \<Longrightarrow> unat ((of_nat m :: byte) + 7) = m + 7"
proof -
  assume m: "m < 64"
  have "unat (of_nat (m + 7) :: byte) = (m + 7) mod 2 ^ LENGTH(8)"
    by (simp only: unat_of_nat)
  with m show ?thesis
    by simp
qed

lemma ReadInternal_loop_last: "m < 64 \<Longrightarrow>
  ReadInternal_loop r (of_nat m) ((scast (w :: 64 word) AND kDataByteMask) # rest) =
    Inr (r OR push_bit m (take_bit 7 w), of_nat m + 7, scast w AND kDataByteMask, rest)"
  by (simp only: ReadInternal_loop.simps unat_byte_of_nat Let_def part_and_more part_and_mask ucast_signed_part)
     (simp add: kDataBitsPerByte_def)

lemma ReadInternal_loop_more: "m < 64 \<Longrightarrow>
  ReadInternal_loop r (of_nat m) (((scast (w :: 64 word) AND kDataByteMask) OR kMoreDataMask) # c) =
    ReadInternal_loop (r OR push_bit m (take_bit 7 w)) (of_nat m + 7) c"
  using part_or_more_and_more [of w]
  by (simp only: ReadInternal_loop.simps unat_byte_of_nat Let_def part_or_more_and_mask ucast_signed_part)
     (simp add: kDataBitsPerByte_def)

lemma sign_bits_mask: "push_bit n 1 - 1 = (mask n :: 64 word)"
  by (simp add: mask_eq_exp_minus_1)

lemma ReadInternal_loop_finish:
  assumes m: "m < 64" and l: "is_last_part (signed_drop_bit m (v :: 64 word))"
  shows "\<exists>r s b. ReadInternal_loop (take_bit m v) (of_nat m)
        (WriteInternal_signed (signed_drop_bit m v) [] @ rest) = Inr (r, s, b, rest) \<and>
     r OR (if b AND kSignMask \<noteq> 0 \<and> unat s < 64 then NOT (push_bit (unat s) 1 - 1) else 0) = v"
proof -
  have "ReadInternal_loop (take_bit m v) (of_nat m)
        (WriteInternal_signed (signed_drop_bit m v) [] @ rest) =
     Inr (take_bit m v OR push_bit m (take_bit 7 (signed_drop_bit m v)), of_nat m + 7,
          scast (signed_drop_bit m v) AND kDataByteMask, rest)"
    by (simp only: WriteInternal_signed_last [OF l] append_Cons append_Nil ReadInternal_loop_last [OF m])
  moreover have "(take_bit m v OR push_bit m (take_bit 7 (signed_drop_bit m v))) OR
    (if (scast (signed_drop_bit m v) AND kDataByteMask) AND kSignMask \<noteq> 0 \<and> unat (of_nat m + 7 :: byte) < 64
       then NOT (push_bit (unat (of_nat m + 7 :: byte)) 1 - 1) else 0) = v"
    using accumulate_last [OF m l]
    by (simp only: part_and_sign unat_byte_add7 [OF m] sign_bits_mask or.assoc)
  ultimately show ?thesis by blast
qed

lemma ReadInternal_loop_Write:
  "m = 7 * k \<Longrightarrow> m < 64 \<Longrightarrow>
   \<exists>r s b. ReadInternal_loop (take_bit m v) (of_nat m)
        (WriteInternal_signed (signed_drop_bit m v) [] @ rest) = Inr (r, s, b, rest) \<and>
     r OR (if b AND kSignMask \<noteq> 0 \<and> unat s < 64 then NOT (push_bit (unat s) 1 - 1) else 0) = v"
proof (induction "9 - k" arbitrary: k m)
  case 0
  then have "57 \<le> m" by simp
  then have l: "is_last_part (signed_drop_bit m v)" by (rule is_last_part_top)
  show ?case
    using \<open>m < 64\<close> l by (rule ReadInternal_loop_finish)
next
  case (Suc n)
  show ?case
  proof (cases "is_last_part (signed_drop_bit m v)")
    case l: True
    show ?thesis
      using \<open>m < 64\<close> l by (rule ReadInternal_loop_finish)
  next
    case False
    then have "\<not> 57 \<le> m" using is_last_part_top by blast
    with Suc.prems have m7: "m + 7 = 7 * Suc k" "m + 7 < 64" by auto
    from Suc.hyps(2) have n: "n = 9 - Suc k" by simp
    note ih = Suc.hyps(1) [OF n m7]
    have w: "WriteInternal_signed (signed_drop_bit m v) [] =
       ((scast (signed_drop_bit m v) AND kDataByteMask) OR kMoreDataMask) # WriteInternal_signed (signed_drop_bit (m + 7) v) []"
      using WriteInternal_signed_more [OF False, of "[]"] WriteInternal_signed_append [of "signed_drop_bit (m + 7) v" "[_]"]
      by (simp add: add.commute)
    have "of_nat (m + 7) = (of_nat m + 7 :: byte)" by simp
    with ih show ?thesis
      by (simp only: w append_Cons ReadInternal_loop_more [OF \<open>m < 64\<close>] accumulate_more [OF \<open>m < 64\<close>])
  qed
qed

lemma ReadInternal_Write:
  "ReadInternal (Write (v :: 64 word) [] @ rest) = Inr (v, rest)"
  using ReadInternal_loop_Write [of 0 0 v rest]
  by (auto simp: ReadInternal_def Write_def)

subsection \<open>The length of the signed encoding\<close>

lemma signed_shift_eq_iff:
  "signed_drop_bit 7 (w :: 64 word) = 0 \<longleftrightarrow> sint w div 128 = 0"
  "signed_drop_bit 7 (w :: 64 word) = - 1 \<longleftrightarrow> sint w div 128 = - 1"
proof -
  have s: "sint (signed_drop_bit 7 w) = sint w div 128"
    by (simp add: sint_signed_drop_bit_eq drop_bit_eq_div)
  have "signed_drop_bit 7 w = 0 \<longleftrightarrow> sint (signed_drop_bit 7 w) = 0"
    by (simp add: signed_eq_0_iff)
  then show "signed_drop_bit 7 w = 0 \<longleftrightarrow> sint w div 128 = 0"
    by (simp only: s)
  have "signed_drop_bit 7 w = - 1 \<longleftrightarrow> sint (signed_drop_bit 7 w) = sint (- 1 :: 64 word)"
    using signed_word_eqI [of "signed_drop_bit 7 w" "- 1"] by auto
  then show "signed_drop_bit 7 w = - 1 \<longleftrightarrow> sint w div 128 = - 1"
    by (simp only: s sint_n1)
qed

lemma bit6_sint: "bit (w :: 64 word) 6 \<longleftrightarrow> odd (sint w div 64)"
proof -
  have "bit w 6 \<longleftrightarrow> bit (sint w) 6"
    by (simp add: bit_sint_iff)
  also have "\<dots> \<longleftrightarrow> odd (sint w div 64)"
    by (simp add: bit_iff_odd)
  finally show ?thesis .
qed

lemma range_64:
  "((x div 128 = 0 \<and> \<not> odd (x div 64)) \<or> (x div 128 = - 1 \<and> odd (x div 64))) \<longleftrightarrow>
   (- 64 \<le> x \<and> x < (64::int))"
proof -
  consider "0 \<le> x \<and> x < 64" | "64 \<le> x \<and> x < 128" | "- 64 \<le> x \<and> x < 0"
    | "- 128 \<le> x \<and> x < - 64" | "128 \<le> x" | "x < - 128"
    by linarith
  then show ?thesis
  proof cases
    case 1
    then have "x div 128 = 0" "x div 64 = 0" by simp_all
    with 1 show ?thesis by simp
  next
    case 2
    then have "x div 128 = 0" "x div 64 = 1" by linarith+
    with 2 show ?thesis by simp
  next
    case 3
    then have "x div 128 = - 1" "x div 64 = - 1" by linarith+
    with 3 show ?thesis by simp
  next
    case 4
    then have "x div 128 = - 1" "x div 64 = - 2" by linarith+
    with 4 show ?thesis by simp
  next
    case 5
    then have "x div 128 \<ge> 1" by linarith
    with 5 show ?thesis by simp
  next
    case 6
    then have "x div 128 \<le> - 2" by linarith
    with 6 show ?thesis by simp
  qed
qed

lemma is_last_part_fits: "is_last_part w \<longleftrightarrow> sleb_fits 1 (sint w)"
proof -
  have "sleb_fits 1 (sint w) \<longleftrightarrow> - 64 \<le> sint w \<and> sint w < 64"
    by (simp add: sleb_fits_def)
  then show ?thesis
    unfolding is_last_part_def signed_shift_eq_iff bit6_sint by (simp only: range_64)
qed

lemma WriteInternal_signed_nonempty: "WriteInternal_signed (w :: 64 word) [] \<noteq> []"
proof (cases "is_last_part w")
  case True
  then show ?thesis by (simp add: WriteInternal_signed_last)
next
  case False
  then show ?thesis
    using WriteInternal_signed_append [of "signed_drop_bit 7 w" "[_]"] by (simp add: WriteInternal_signed_more)
qed

lemma fits_step:
  assumes "0 < k"
  shows "sleb_fits k (x div 128) \<longleftrightarrow> sleb_fits (Suc k) x"
proof -
  from assms obtain j where k: "k = Suc j" by (cases k) auto
  have p: "(2::int) ^ (7 * Suc k - 1) = 128 * 2 ^ (7 * k - 1)"
    by (simp add: k power_add)
  have "- (2 ^ (7 * k - 1)) \<le> x div 128 \<longleftrightarrow> - (128 * 2 ^ (7 * k - 1)) \<le> x"
    by linarith
  moreover have "x div 128 < 2 ^ (7 * k - 1) \<longleftrightarrow> x < 128 * 2 ^ (7 * k - 1)"
    by linarith
  ultimately show ?thesis
    using assms by (simp only: sleb_fits_def p) simp
qed

lemma fits_mono: "sleb_fits 1 x \<Longrightarrow> sleb_fits (Suc k) x"
proof -
  assume "sleb_fits 1 x"
  then have x: "- 64 \<le> x" "x < 64" by (simp_all add: sleb_fits_def)
  have "(2::int) ^ (7 * Suc k - 1) = 64 * 2 ^ (7 * k)"
    by (simp add: power_add)
  moreover have "(1::int) \<le> 2 ^ (7 * k)" by simp
  ultimately have "(64::int) \<le> 2 ^ (7 * Suc k - 1)" by linarith
  with x show ?thesis by (simp add: sleb_fits_def)
qed

lemma length_WriteInternal_signed: "length (WriteInternal_signed (w :: 64 word) []) \<le> k \<longleftrightarrow> sleb_fits k (sint w)"
proof (induction k arbitrary: w)
  case 0
  then show ?case using WriteInternal_signed_nonempty [of w] by (simp add: sleb_fits_def)
next
  case (Suc k)
  show ?case
  proof (cases "is_last_part w")
    case True
    then show ?thesis
      using fits_mono [of "sint w" k] by (simp add: WriteInternal_signed_last is_last_part_fits)
  next
    case False
    have w: "WriteInternal_signed w [] =
       ((scast w AND kDataByteMask) OR kMoreDataMask) # WriteInternal_signed (signed_drop_bit 7 w) []"
      using WriteInternal_signed_more [OF False, of "[]"] WriteInternal_signed_append [of "signed_drop_bit 7 w" "[_]"] by simp
    have s: "sint (signed_drop_bit 7 w) = sint w div 128"
      by (simp add: sint_signed_drop_bit_eq drop_bit_eq_div)
    show ?thesis
    proof (cases "k = 0")
      case True
      then show ?thesis
        using False WriteInternal_signed_nonempty [of "signed_drop_bit 7 w"] by (simp add: w is_last_part_fits)
    next
      case False
      then show ?thesis
        using Suc.IH [of "signed_drop_bit 7 w"] fits_step [of k "sint w"] by (simp add: w s)
    qed
  qed
qed

lemma last_WriteInternal_signed:
  "(bit (last (WriteInternal_signed (w :: 64 word) [])) 6 \<longleftrightarrow> sint w < 0) \<and>
   \<not> bit (last (WriteInternal_signed w [])) 7"
proof (induction "nat \<bar>sint w\<bar>" arbitrary: w rule: less_induct)
  case less
  show ?case
  proof (cases "is_last_part w")
    case True
    then have "bit w 6 \<longleftrightarrow> sint w < 0"
      unfolding is_last_part_def signed_shift_eq_iff by linarith
    then show ?thesis
      using True by (simp add: WriteInternal_signed_last bit_signed_part)
  next
    case False
    have w: "WriteInternal_signed w [] =
       ((scast w AND kDataByteMask) OR kMoreDataMask) # WriteInternal_signed (signed_drop_bit 7 w) []"
      using WriteInternal_signed_more [OF False, of "[]"] WriteInternal_signed_append [of "signed_drop_bit 7 w" "[_]"] by simp
    have "sint w div 128 < 0 \<longleftrightarrow> sint w < 0"
      by linarith
    then have s: "sint (signed_drop_bit 7 w) < 0 \<longleftrightarrow> sint w < 0"
      by (simp add: sint_signed_drop_bit_eq drop_bit_eq_div)
    show ?thesis
      using less [OF signed_shift_decreases [OF False]] WriteInternal_signed_nonempty [of "signed_drop_bit 7 w"]
      by (simp add: w s)
  qed
qed

subsection \<open>The unsigned writer against the specification\<close>

lemma WriteInternal_unsigned_last: "drop_bit 7 w = 0 \<Longrightarrow>
  WriteInternal_unsigned (w :: 'a::len word) st = st @ [ucast w AND kDataByteMask]"
  by (subst WriteInternal_unsigned.simps) (simp add: Let_def kDataBitsPerByte_def WriteByte_def)

lemma WriteInternal_unsigned_more: "drop_bit 7 w \<noteq> 0 \<Longrightarrow>
  WriteInternal_unsigned (w :: 'a::len word) st =
    WriteInternal_unsigned (drop_bit 7 w) (st @ [(ucast w AND kDataByteMask) OR kMoreDataMask])"
  by (subst WriteInternal_unsigned.simps) (simp add: Let_def kDataBitsPerByte_def WriteByte_def)

lemma unat_drop7: "unat (drop_bit 7 (w :: 'a::len word)) = unat w div 128"
  unfolding unat_drop_bit_eq by (simp add: drop_bit_eq_div)

lemma drop7_eq_0: "drop_bit 7 (w :: 'a::len word) = 0 \<longleftrightarrow> unat w < 128"
proof -
  have "drop_bit 7 w = 0 \<longleftrightarrow> unat (drop_bit 7 w) = 0"
    by (simp add: unat_eq_0)
  also have "\<dots> \<longleftrightarrow> unat w < 128"
    by (simp only: unat_drop7) arith
  finally show ?thesis .
qed

lemma unsigned_part: "ucast (w :: 'a::len word) AND kDataByteMask = (of_nat (unat w mod 128) :: byte)"
proof -
  have "unat w mod 128 = take_bit 7 (unat w)"
    by (simp add: take_bit_eq_mod)
  then show ?thesis
    by (simp only:) (rule bit_eqI, auto simp: bit_masks bit_simps)
qed

lemma unsigned_part_more:
  "(ucast (w :: 'a::len word) AND kDataByteMask) OR kMoreDataMask = (of_nat (unat w mod 128 + 128) :: byte)"
proof -
  have "(of_nat (unat w mod 128 + 128) :: byte) = (ucast w AND kDataByteMask) + kMoreDataMask"
    by (simp add: unsigned_part kMoreDataMask_def kDataBitsPerByte_def)
  also have "\<dots> = (ucast w AND kDataByteMask) OR kMoreDataMask"
    by (rule disjunctive_add_eq_or) (rule bit_eqI, auto simp: bit_masks bit_simps)
  finally show ?thesis by simp
qed

lemma WriteInternal_unsigned_uleb128: "WriteInternal_unsigned (w :: 'a::len word) st = st @ uleb128 (unat w)"
proof (induction "unat w" arbitrary: w st rule: less_induct)
  case less
  show ?case
  proof (cases "drop_bit 7 w = 0")
    case True
    then have "unat w < 128" by (simp add: drop7_eq_0)
    then show ?thesis
      using True by (simp add: WriteInternal_unsigned_last unsigned_part uleb128.simps [of "unat w"])
  next
    case False
    then have n: "\<not> unat w < 128" by (simp add: drop7_eq_0)
    then have "unat w div 128 < unat w"
      by simp
    then have "unat (drop_bit 7 w) < unat w"
      by (simp only: unat_drop7)
    from less [OF this] show ?thesis
      using False n by (simp add: WriteInternal_unsigned_more unsigned_part_more unat_drop7 uleb128.simps [of "unat w"])
  qed
qed

lemma unat_of_nat_64: "n < 2 ^ 63 \<Longrightarrow> unat (of_nat n :: 64 word) = n"
  by (simp add: unat_of_nat)

lemma sint_of_nat_64: "n < 2 ^ 63 \<Longrightarrow> \<not> sint (of_nat n :: 64 word) < 0"
proof -
  assume n: "n < 2 ^ 63"
  then have "signed_take_bit 63 (int n) = int n"
    by (intro signed_take_bit_int_eq_self) simp_all
  then have "sint (of_nat n :: 64 word) = int n"
    by (simp add: signed_of_nat)
  then show ?thesis by simp
qed

lemma WriteUnsigned_length: "n < 2 ^ 63 \<Longrightarrow>
  WriteUnsigned_of_signed (of_nat n :: 64 word) st = Inr (st @ uleb128 n)"
  by (simp add: WriteUnsigned_of_signed_def sint_of_nat_64 WriteUnsigned_def WriteInternal_unsigned_uleb128 unat_of_nat_64)

text \<open>
  Claim C5. For every 64-bit signed \<open>v\<close>, \<^verbatim>\<open>Read<int64_t>\<close> on the bytes that \<^verbatim>\<open>Write\<close>
  appended gives \<open>v\<close> back and stops right after them. The number of bytes is the least
  number of 7-bit groups that hold \<open>v\<close> in two's complement: it is at most \<open>k\<close> exactly
  when \<open>k\<close> groups hold \<open>v\<close>. Bit 6 of the last byte is set exactly when \<open>v\<close> is negative,
  and its continuation bit is clear.
\<close>

theorem sleb128_round_trip_and_minimal_length:
  fixes v :: "64 word"
  shows "Write v st = st @ Write v [] \<and>
    ReadInternal (Write v [] @ rest) = Inr (v, rest) \<and>
    (length (Write v []) \<le> k \<longleftrightarrow> sleb_fits k (sint v)) \<and>
    (bit (last (Write v [])) 6 \<longleftrightarrow> sint v < 0) \<and>
    \<not> bit (last (Write v [])) 7"
  using WriteInternal_signed_append [of v st] ReadInternal_Write [of v rest]
    length_WriteInternal_signed [of v k] last_WriteInternal_signed [of v]
  by (simp add: Write_def)

theorem sleb128_round_trip_and_minimal_length_witness:
  "Write (- 65 :: 64 word) [0x01] = [0x01] @ Write (- 65 :: 64 word) [] \<and>
    ReadInternal (Write (- 65 :: 64 word) [] @ [0x2A]) = Inr (- 65, [0x2A]) \<and>
    (length (Write (- 65 :: 64 word) []) \<le> 2 \<longleftrightarrow> sleb_fits 2 (sint (- 65 :: 64 word))) \<and>
    (bit (last (Write (- 65 :: 64 word) [])) 6 \<longleftrightarrow> sint (- 65 :: 64 word) < 0) \<and>
    \<not> bit (last (Write (- 65 :: 64 word) [])) 7"
  by (rule sleb128_round_trip_and_minimal_length)

section \<open>The length-prefix scope\<close>

lemmas mask_defs = kDataByteMask_def kSignMask_def kMoreDataMask_def kDataBitsPerByte_def

lemma then_do_simps:
  "then_do (Inr x) f = f x"
  "then_do (Inl e) f = Inl e"
  by (simp_all add: then_do_def)

lemma bytes_written_unat: "length st < 2 ^ 63 \<Longrightarrow> unat (bytes_written st) = length st"
  by (simp add: bytes_written_def unat_of_nat_64)

lemma PushBytecountFrontScope_dtor_law:
  assumes "scopes os' = old_stream # enclosing" and "length (stream os') < 2 ^ 63"
  shows "PushBytecountFrontScope_dtor os' =
    Inr \<lparr>stream = old_stream @ uleb128 (length (stream os')) @ stream os', scopes = enclosing\<rparr>"
proof -
  have u: "unat (bytes_written (stream os')) = length (stream os')"
    using assms(2) by (rule bytes_written_unat)
  have w: "WriteUnsigned_of_signed (bytes_written (stream os')) old_stream =
      Inr (old_stream @ uleb128 (length (stream os')))"
    unfolding bytes_written_def using assms(2) by (rule WriteUnsigned_length)
  show ?thesis
    by (simp add: PushBytecountFrontScope_dtor_def Let_def assms(1) u w WriteBytes_def)
qed

lemma WRITE_BYTECOUNT_law:
  assumes "block (PushBytecountFrontScope_ctor os) = Inr os'"
    and "scopes os' = scopes (PushBytecountFrontScope_ctor os)"
    and "length (stream os') < 2 ^ 63"
  shows "WRITE_BYTECOUNT block os =
      Inr \<lparr>stream = stream os @ uleb128 (length (stream os')) @ stream os', scopes = scopes os\<rparr>"
proof -
  from assms(2) have "scopes os' = stream os # scopes os"
    by (simp add: PushBytecountFrontScope_ctor_def)
  from PushBytecountFrontScope_dtor_law [OF this assms(3)] assms(1) show ?thesis
    by (simp add: WRITE_BYTECOUNT_def then_do_simps)
qed

text \<open>
  Claim C3. A block runs inside a \<^verbatim>\<open>WRITE_BYTECOUNT\<close> scope: it starts on the new, empty
  stream, and it ends in the state \<open>os'\<close>, with the scopes it found and with a payload
  \<open>stream os'\<close> whose length fits \<^verbatim>\<open>intptr_t\<close>. Then leaving the scope gives the enclosing
  stream followed by the ULEB128 of the payload's length and by the payload, under the
  scopes that were open before: the enclosing stream is the current one again and has
  grown by the length of the prefix plus the length of the payload.
\<close>

theorem length_prefix_law:
  assumes "block (PushBytecountFrontScope_ctor os) = Inr os'"
    and "scopes os' = scopes (PushBytecountFrontScope_ctor os)"
    and "length (stream os') < 2 ^ 63"
  shows "stream (PushBytecountFrontScope_ctor os) = [] \<and>
    scopes (PushBytecountFrontScope_ctor os) = stream os # scopes os \<and>
    WRITE_BYTECOUNT block os =
      Inr \<lparr>stream = stream os @ uleb128 (length (stream os')) @ stream os', scopes = scopes os\<rparr> \<and>
    length (stream os @ uleb128 (length (stream os')) @ stream os') =
      length (stream os) + length (uleb128 (length (stream os'))) + length (stream os')"
  using WRITE_BYTECOUNT_law [of block os os'] assms
  by (simp add: PushBytecountFrontScope_ctor_def WriteStream_ctor_def)

theorem length_prefix_law_witness:
  "WRITE_BYTECOUNT (\<lambda>os. Inr (WRITE_UNSIGNED (98 :: 32 word) (WRITE_UNSIGNED (23 :: 32 word) os)))
     \<lparr>stream = [0x0A], scopes = []\<rparr> = Inr \<lparr>stream = [0x0A, 2, 23, 98], scopes = []\<rparr>"
  using length_prefix_law [of "\<lambda>os. Inr (WRITE_UNSIGNED (98 :: 32 word) (WRITE_UNSIGNED (23 :: 32 word) os))"
      "\<lparr>stream = [0x0A], scopes = []\<rparr>" "\<lparr>stream = [23, 98], scopes = [[0x0A]]\<rparr>"]
  by (simp add: PushBytecountFrontScope_ctor_def WriteStream_ctor_def WRITE_UNSIGNED_def
      WriteUnsigned_def WriteInternal_unsigned.simps Let_def mask_defs WriteByte_def uleb128.simps)

section \<open>Binary and text forms\<close>

lemma Write_tags:
  "Write (- 0x10 :: 32 word) st = st @ [0x70]"
  "Write (- 0x11 :: 32 word) st = st @ [0x6F]"
  "Write (- 0x13 :: 32 word) st = st @ [0x6D]"
  "Write (- 0x14 :: 32 word) st = st @ [0x6C]"
  "Write (- 0x15 :: 32 word) st = st @ [0x6B]"
  "Write (- 0x16 :: 32 word) st = st @ [0x6A]"
  "Write (- 0x17 :: 32 word) st = st @ [0x69]"
  by (simp_all add: Write_def WriteInternal_signed.simps Let_def mask_defs WriteByte_def)

lemma WRITE_UNSIGNED_length_0: "WRITE_UNSIGNED_length 0 os = Inr (os\<lparr>stream := stream os @ [0]\<rparr>)"
  using WriteUnsigned_length [of 0 "stream os"]
  by (simp add: WRITE_UNSIGNED_length_def uleb128.simps)

lemma WRITE_UNSIGNED_length_1:
  "WRITE_UNSIGNED_length (Suc 0) os = Inr (os\<lparr>stream := stream os @ [1]\<rparr>)"
  using WriteUnsigned_length [of 1 "stream os"]
  by (simp add: WRITE_UNSIGNED_length_def uleb128.simps)

lemma empty_section:
  "WRITE_BYTECOUNT (\<lambda>os. then_do (WRITE_UNSIGNED_length 0 os) (for_each each [])) os =
     Inr (os\<lparr>stream := stream os @ [1, 0]\<rparr>)"
proof -
  have "WRITE_BYTECOUNT (\<lambda>os. then_do (WRITE_UNSIGNED_length 0 os) (for_each each [])) os =
     Inr \<lparr>stream = stream os @ uleb128 (length [0 :: byte]) @ [0], scopes = scopes os\<rparr>"
    using WRITE_BYTECOUNT_law [of "\<lambda>os. then_do (WRITE_UNSIGNED_length 0 os) (for_each each [])" os
      "\<lparr>stream = [0], scopes = stream os # scopes os\<rparr>"]
    by (simp add: WRITE_UNSIGNED_length_0 then_do_simps PushBytecountFrontScope_ctor_def
        WriteStream_ctor_def)
  then show ?thesis
    by (simp add: uleb128.simps)
qed

text \<open>
  Claim C2. The binary form of a builder with no composite type and no function is the
  magic number, the version, and the type, function and code sections, with the
  identifiers 1, 3 and 10, each with the byte count 1 and the element count 0: written to
  an empty stream, these 17 bytes, and appended as they are to any stream.
\<close>

theorem empty_module_binary:
  "WasmModuleBuilder_OutputBinary WasmModuleBuilder_ctor \<lparr>stream = [], scopes = []\<rparr> =
     Inr \<lparr>stream = [0x00, 0x61, 0x73, 0x6D, 0x01, 0x00, 0x00, 0x00,
                    0x01, 0x01, 0x00, 0x03, 0x01, 0x00, 0x0A, 0x01, 0x00],
          scopes = []\<rparr> \<and>
   WasmModuleBuilder_OutputBinary WasmModuleBuilder_ctor os =
     Inr (os\<lparr>stream := stream os @
                  [0x00, 0x61, 0x73, 0x6D, 0x01, 0x00, 0x00, 0x00,
                   0x01, 0x01, 0x00, 0x03, 0x01, 0x00, 0x0A, 0x01, 0x00]\<rparr>)"
  by (simp add: WasmModuleBuilder_OutputBinary_def WasmModuleBuilder_ctor_def
      OutputTypeSection_def OutputFunctionSection_def OutputCodeSection_def
      empty_section WRITE_BYTE_def WriteFixed_def then_do_simps)

text \<open>
  Claim C8. The binary form of the heap type \<open>any\<close> is the fatal error, raised in the state
  in which the method was entered: no byte has been written. Its text form is the symbol
  \<open>any\<close>. The other abstract heap types write the SLEB128 of their tag, one byte each, and
  a type index writes the SLEB128 of the index of its composite type; none of them fails.
\<close>

theorem heap_type_any_is_fatal_in_binary:
  "HeapType_OutputBinary (HeapType kAny def_type) os =
     Inl (Fatal ''any/anyref not implemented by V8'', os) \<and>
   HeapType_Serialize (HeapType kAny def_type) = Inr (SExpSymbol ''any'') \<and>
   HeapType_OutputBinary (HeapType kFunc def_type) os =
     Inr (os\<lparr>stream := Write (- 0x10 :: 32 word) (stream os)\<rparr>) \<and>
   HeapType_OutputBinary (HeapType kExtern def_type) os =
     Inr (os\<lparr>stream := Write (- 0x11 :: 32 word) (stream os)\<rparr>) \<and>
   HeapType_OutputBinary (HeapType kTypeidx (Some i)) os =
     Inr (os\<lparr>stream := Write i (stream os)\<rparr>) \<and>
   HeapType_OutputBinary (HeapType kEq def_type) os =
     Inr (os\<lparr>stream := Write (- 0x13 :: 32 word) (stream os)\<rparr>) \<and>
   HeapType_OutputBinary (HeapType kI31 def_type) os =
     Inr (os\<lparr>stream := Write (- 0x16 :: 32 word) (stream os)\<rparr>) \<and>
   Write (- 0x10 :: 32 word) (stream os) = stream os @ [0x70] \<and>
   Write (- 0x11 :: 32 word) (stream os) = stream os @ [0x6F] \<and>
   Write (- 0x13 :: 32 word) (stream os) = stream os @ [0x6D] \<and>
   Write (- 0x16 :: 32 word) (stream os) = stream os @ [0x6A]"
  by (simp add: WRITE_SIGNED_def Write_tags)

theorem heap_type_any_is_fatal_in_binary_witness:
  "HeapType_OutputBinary (HeapType kAny None) \<lparr>stream = [0x01], scopes = []\<rparr> =
     Inl (Fatal ''any/anyref not implemented by V8'', \<lparr>stream = [0x01], scopes = []\<rparr>) \<and>
   HeapType_Serialize (HeapType kAny None) = Inr (SExpSymbol ''any'') \<and>
   HeapType_OutputBinary (HeapType kFunc None) \<lparr>stream = [0x01], scopes = []\<rparr> =
     Inr \<lparr>stream = [0x01, 0x70], scopes = []\<rparr> \<and>
   HeapType_OutputBinary (HeapType kTypeidx (Some 5)) \<lparr>stream = [0x01], scopes = []\<rparr> =
     Inr \<lparr>stream = [0x01, 0x05], scopes = []\<rparr>"
  using heap_type_any_is_fatal_in_binary [of None "\<lparr>stream = [0x01], scopes = []\<rparr>" 5]
  by (simp add: Write_def WriteInternal_signed.simps Let_def mask_defs WriteByte_def)

text \<open>
  Claim C4 fails at \<open>anyref\<close>. This reference type of the builder matches a shorthand
  row, and its binary form is no shorthand byte: the method aborts with the stream as it
  was.
\<close>

theorem anyref_binary_is_fatal:
  "ValueType_OutputBinary anyref \<lparr>stream = [], scopes = []\<rparr> =
     Inl (Fatal ''any/anyref not implemented by V8'', \<lparr>stream = [], scopes = []\<rparr>)"
  by (simp add: anyref_def RefType_OutputBinary_def)

text \<open>
  Claim C4, amended. A reference type that matches a shorthand row has the shorthand symbol
  as its text form. Its binary form is the one shorthand byte for \<open>i31ref\<close>, \<open>funcref\<close>,
  \<open>externref\<close> and \<open>eqref\<close>, and never the general form; for \<open>anyref\<close> the binary form is
  the fatal error of the heap type \<open>any\<close>, and nothing is written. The nullable reference
  to \<open>func\<close> is \<open>funcref\<close> in text and the byte \<open>0x70\<close>, the SLEB128 of \<open>-0x10\<close>, in binary.
\<close>

theorem ref_type_shorthand:
  "RefType_Serialize False (Some (HeapType kI31 d)) = Inr (SExpSymbol ''i31ref'') \<and>
   RefType_Serialize True (Some (HeapType kFunc d)) = Inr (SExpSymbol ''funcref'') \<and>
   RefType_Serialize True (Some (HeapType kExtern d)) = Inr (SExpSymbol ''externref'') \<and>
   RefType_Serialize True (Some (HeapType kAny d)) = Inr (SExpSymbol ''anyref'') \<and>
   RefType_Serialize True (Some (HeapType kEq d)) = Inr (SExpSymbol ''eqref'') \<and>
   RefType_OutputBinary False (Some (HeapType kI31 d)) os = Inr (os\<lparr>stream := stream os @ [0x6A]\<rparr>) \<and>
   RefType_OutputBinary True (Some (HeapType kFunc d)) os = Inr (os\<lparr>stream := stream os @ [0x70]\<rparr>) \<and>
   RefType_OutputBinary True (Some (HeapType kExtern d)) os = Inr (os\<lparr>stream := stream os @ [0x6F]\<rparr>) \<and>
   RefType_OutputBinary True (Some (HeapType kEq d)) os = Inr (os\<lparr>stream := stream os @ [0x6D]\<rparr>) \<and>
   RefType_OutputBinary True (Some (HeapType kAny d)) os =
     Inl (Fatal ''any/anyref not implemented by V8'', os) \<and>
   ValueType_Serialize funcref = Inr (SExpSymbol ''funcref'') \<and>
   ValueType_OutputBinary funcref \<lparr>stream = [], scopes = []\<rparr> = Inr \<lparr>stream = [0x70], scopes = []\<rparr> \<and>
   Write (- 0x10 :: 32 word) [] = [0x70]"
  by (simp add: RefType_Serialize_def RefType_OutputBinary_def WRITE_SIGNED_def Write_tags funcref_def)

theorem ref_type_shorthand_witness:
  "RefType_Serialize True (Some (HeapType kEq None)) = Inr (SExpSymbol ''eqref'') \<and>
   RefType_OutputBinary True (Some (HeapType kEq None)) \<lparr>stream = [0x60], scopes = []\<rparr> =
     Inr \<lparr>stream = [0x60, 0x6D], scopes = []\<rparr> \<and>
   RefType_OutputBinary False (Some (HeapType kI31 None)) \<lparr>stream = [0x60], scopes = []\<rparr> =
     Inr \<lparr>stream = [0x60, 0x6A], scopes = []\<rparr>"
  using ref_type_shorthand [of None "\<lparr>stream = [0x60], scopes = []\<rparr>"]
  by simp

text \<open>
  Claim C1 fails on the code. \<^verbatim>\<open>AddLocal\<close> with the kind \<open>kParam\<close> puts the parameter into
  \<^verbatim>\<open>locals_\<close>, and \<^verbatim>\<open>Function::OutputBinary\<close> counts and describes every element of
  \<^verbatim>\<open>locals_\<close>: a function with one \<open>i32\<close> parameter, no local and no body is written as
  \<open>01 01 7F 0B\<close>, where the claim has \<open>00 0B\<close>.
\<close>

theorem function_binary_counts_params:
  "AddLocal kParam (NumType kI32) ''x'' (Function_ctor ''f'' 0 0) =
     Inr \<lparr>Function_name = ''f'', Function_index = 0, Function_type = 0,
          locals = [Local kParam (NumType kI32) ''x'' 0], body = None\<rparr> \<and>
   Function_OutputBinary
     \<lparr>Function_name = ''f'', Function_index = 0, Function_type = 0,
      locals = [Local kParam (NumType kI32) ''x'' 0], body = None\<rparr>
     \<lparr>stream = [], scopes = []\<rparr> =
     Inr \<lparr>stream = [0x01, 0x01, 0x7F, 0x0B], scopes = []\<rparr> \<and>
   Function_OutputBinary
     \<lparr>Function_name = ''f'', Function_index = 0, Function_type = 0,
      locals = [Local kParam (NumType kI32) ''x'' 0], body = None\<rparr>
     \<lparr>stream = [], scopes = []\<rparr> \<noteq>
     Inr \<lparr>stream = [0x00, 0x0B], scopes = []\<rparr>"
  by (simp add: AddLocal_def Function_ctor_def Function_OutputBinary_def WRITE_UNSIGNED_length_1
      then_do_simps WRITE_BYTE_def WriteFixed_def)

text \<open>
  Claim C7 fails on the code. The text form of an \<open>if\<close> is a list of three elements whose
  second element holds the symbol \<open>then\<close>, the then-branch, the symbol \<open>else\<close> and the
  else-branch, and whose third element is the empty list; for two empty branches it is
  not the tree \<open>(if (then ()) (else ()))\<close> of the claim.
\<close>

theorem if_text_puts_else_inside_then:
  "Instruction_Serialize (If' then_branch otherwise) =
     SExpList [SExpSymbol ''if'',
               SExpList [SExpSymbol ''then'', InstructionList_Serialize then_branch,
                         SExpSymbol ''else'', InstructionList_Serialize otherwise],
               SExpList []] \<and>
   Instruction_Serialize (If' [] []) \<noteq>
     SExpList [SExpSymbol ''if'',
               SExpList [SExpSymbol ''then'', SExpList []],
               SExpList [SExpSymbol ''else'', SExpList []]]"
  by (simp add: InstructionList_Serialize_def Let_def)

section \<open>Parameters before locals\<close>

lemma AddLocal_kinds:
  assumes inv: "map kind (locals f) = replicate p kParam @ replicate l kLocal"
    and ok: "AddLocal k t n f = Inr f'"
  shows "\<exists>p' l'. map kind (locals f') = replicate p' kParam @ replicate l' kLocal"
proof (cases k)
  case kLocal
  with ok have "map kind (locals f') = replicate p kParam @ replicate l kLocal @ [kLocal]"
    using inv by (auto simp: AddLocal_def)
  then have "map kind (locals f') = replicate p kParam @ replicate (Suc l) kLocal"
    by (simp add: replicate_append_same)
  then show ?thesis by blast
next
  case kParam
  with ok have c: "locals f = [] \<or> kind (last (locals f)) = kParam"
    and f': "locals f' = locals f @ [Local kParam t n (of_nat (length (locals f)))]"
    by (auto simp: AddLocal_def split: if_splits)
  have "l = 0"
  proof (rule ccontr)
    assume "l \<noteq> 0"
    then obtain j where l: "l = Suc j" by (cases l) auto
    with inv have m: "map kind (locals f) = (replicate p kParam @ replicate j kLocal) @ [kLocal]"
      by (simp add: replicate_append_same)
    then have ne: "locals f \<noteq> []" by auto
    from m have "last (map kind (locals f)) = kLocal"
      by (simp only: last_snoc)
    with ne have "kind (last (locals f)) = kLocal"
      by (simp add: last_map)
    with c ne show False by simp
  qed
  with inv f' have "map kind (locals f') = replicate (Suc p) kParam @ replicate 0 kLocal"
    by (simp add: replicate_append_same)
  then show ?thesis by blast
qed

lemma AddLocals_kinds:
  "AddLocals calls f = Inr f' \<Longrightarrow>
   \<exists>p l. map kind (locals f) = replicate p kParam @ replicate l kLocal \<Longrightarrow>
   \<exists>p l. map kind (locals f') = replicate p kParam @ replicate l kLocal"
proof (induction calls arbitrary: f)
  case Nil
  then show ?case by simp
next
  case (Cons c calls)
  obtain k t n where c: "c = (k, t, n)" by (cases c)
  with Cons.prems(1) obtain f1 where f1: "AddLocal k t n f = Inr f1" "AddLocals calls f1 = Inr f'"
    by (auto simp: then_do_def split: sum.splits)
  from Cons.prems(2) f1(1) have "\<exists>p l. map kind (locals f1) = replicate p kParam @ replicate l kLocal"
    using AddLocal_kinds by blast
  with Cons.IH f1(2) show ?case by blast
qed

lemma AddLocal_param_after_local:
  assumes inv: "map kind (locals f) = replicate p kParam @ replicate l kLocal"
    and loc: "kLocal \<in> kind ` set (locals f)"
  shows "AddLocal kParam t n f = Inl AssertionFailed"
proof -
  from loc have "kLocal \<in> set (map kind (locals f))" by simp
  with inv have "l \<noteq> 0" by auto
  then obtain j where l: "l = Suc j" by (cases l) auto
  with inv have m: "map kind (locals f) = (replicate p kParam @ replicate j kLocal) @ [kLocal]"
    by (simp add: replicate_append_same)
  then have ne: "locals f \<noteq> []" by auto
  from m have "last (map kind (locals f)) = kLocal"
    by (simp only: last_snoc)
  with ne have "kind (last (locals f)) = kLocal"
    by (simp add: last_map)
  with ne show ?thesis by (simp add: AddLocal_def)
qed

text \<open>
  Claim C9. A function is made by its constructor and by calls of \<^verbatim>\<open>AddLocal\<close>, none of
  which has tripped the assertion. Then the kinds of its locals are a run of \<open>kParam\<close>
  followed by a run of \<open>kLocal\<close>, and if one of its locals is of kind \<open>kLocal\<close> then a
  further \<^verbatim>\<open>AddLocal\<close> with the kind \<open>kParam\<close> trips the assertion.
\<close>

theorem params_precede_locals:
  assumes "AddLocals calls (Function_ctor n i t) = Inr f"
  shows "(\<exists>p l. map kind (locals f) = replicate p kParam @ replicate l kLocal) \<and>
    (kLocal \<in> kind ` set (locals f) \<longrightarrow> AddLocal kParam ty nm f = Inl AssertionFailed)"
proof -
  have "map kind (locals (Function_ctor n i t)) = replicate 0 kParam @ replicate 0 kLocal"
    by (simp add: Function_ctor_def)
  then have "\<exists>p l. map kind (locals f) = replicate p kParam @ replicate l kLocal"
    using AddLocals_kinds [OF assms] by blast
  then show ?thesis
    using AddLocal_param_after_local by blast
qed

theorem params_precede_locals_witness:
  "AddLocals [(kParam, NumType kI32, ''a''), (kLocal, NumType kI64, ''b'')] (Function_ctor ''f'' 0 0) =
     Inr \<lparr>Function_name = ''f'', Function_index = 0, Function_type = 0,
          locals = [Local kParam (NumType kI32) ''a'' 0, Local kLocal (NumType kI64) ''b'' 1],
          body = None\<rparr> \<and>
   kLocal \<in> kind ` set [Local kParam (NumType kI32) ''a'' 0, Local kLocal (NumType kI64) ''b'' 1] \<and>
   map kind [Local kParam (NumType kI32) ''a'' 0, Local kLocal (NumType kI64) ''b'' 1] =
     replicate 1 kParam @ replicate 1 kLocal \<and>
   AddLocal kParam (NumType kF32) ''c''
     \<lparr>Function_name = ''f'', Function_index = 0, Function_type = 0,
      locals = [Local kParam (NumType kI32) ''a'' 0, Local kLocal (NumType kI64) ''b'' 1],
      body = None\<rparr> = Inl AssertionFailed"
proof -
  have run: "AddLocals [(kParam, NumType kI32, ''a''), (kLocal, NumType kI64, ''b'')] (Function_ctor ''f'' 0 0) =
     Inr \<lparr>Function_name = ''f'', Function_index = 0, Function_type = 0,
          locals = [Local kParam (NumType kI32) ''a'' 0, Local kLocal (NumType kI64) ''b'' 1],
          body = None\<rparr>"
    by (simp add: AddLocal_def Function_ctor_def then_do_simps)
  from params_precede_locals [OF run, of "NumType kF32" "''c''"] run show ?thesis
    by simp
qed

section \<open>The index spaces of the builder\<close>

lemma index_AddParam: "index (AddParam param_type t) = index t"
  by (cases t) simp_all

lemma index_AddField: "index (AddField field_type t) = index t"
  by (cases t) simp_all

lemma Function_index_AddLocal: "AddLocal k t n f = Inr f' \<Longrightarrow> Function_index f' = Function_index f"
  by (auto simp: AddLocal_def split: if_splits)

lemma Function_index_AddInstruction: "Function_index (AddInstruction instr f) = Function_index f"
  by (simp add: AddInstruction_def split: option.splits)

lemma type_indices_on_type:
  assumes "\<And>t. index (method t) = index t"
  shows "type_indices (on_type p method b) = type_indices b"
    and "length (builder_types (on_type p method b)) = length (builder_types b)"
    and "builder_functions (on_type p method b) = builder_functions b"
  using assms by (simp_all add: on_type_def type_indices_def map_update list_update_same_conv)

lemma function_indices_on_function:
  assumes "\<And>f f'. method f = Inr f' \<Longrightarrow> Function_index f' = Function_index f"
    and "on_function p method b = Inr b'"
  shows "function_indices b' = function_indices b"
    and "length (builder_functions b') = length (builder_functions b)"
    and "builder_types b' = builder_types b"
proof -
  show "function_indices b' = function_indices b"
    using assms
    by (auto simp: on_function_def function_indices_def then_do_def map_update
        list_update_same_conv split: if_splits sum.splits)
  show "length (builder_functions b') = length (builder_functions b)"
    using assms(2) by (auto simp: on_function_def then_do_def split: if_splits sum.splits)
  show "builder_types b' = builder_types b"
    using assms(2) by (auto simp: on_function_def then_do_def split: if_splits sum.splits)
qed

lemmas zone_defs = Zone_new_def in_use_def address_of_def target_def returned_def
  builder_after_def zone_after_def

lemmas factory_defs = MakeFieldType_of_value_def MakeFieldType_of_packed_def MakeArrayType_def
  MakeArrayType_of_value_def MakeArrayType_of_packed_def MakeHeapType_def MakeRefType_def
  MakeFuncType_def MakeStructType_def AddFunction_def

text \<open>What a factory method registers: the target of the pointer it returns, at the end.\<close>

lemma MakeFuncType_registers:
  "builder_types (builder_after (MakeFuncType result_type b z)) =
     builder_types b @ [target (returned (MakeFuncType result_type b z))]"
  "index (target (returned (MakeFuncType result_type b z))) = of_nat (length (builder_types b))"
  "builder_functions (builder_after (MakeFuncType result_type b z)) = builder_functions b"
  by (simp_all add: MakeFuncType_def zone_defs)

lemma MakeStructType_registers:
  "builder_types (builder_after (MakeStructType b z)) =
     builder_types b @ [target (returned (MakeStructType b z))]"
  "index (target (returned (MakeStructType b z))) = of_nat (length (builder_types b))"
  "builder_functions (builder_after (MakeStructType b z)) = builder_functions b"
  by (simp_all add: MakeStructType_def zone_defs)

lemma MakeArrayType_registers:
  "builder_types (builder_after (MakeArrayType field_type b z)) =
     builder_types b @ [target (returned (MakeArrayType field_type b z))]"
  "index (target (returned (MakeArrayType field_type b z))) = of_nat (length (builder_types b))"
  "builder_functions (builder_after (MakeArrayType field_type b z)) = builder_functions b"
  by (simp_all add: MakeArrayType_def zone_defs)

lemma MakeArrayType_of_value_registers:
  "builder_types (builder_after (MakeArrayType_of_value value_type mut b z)) =
     builder_types b @ [target (returned (MakeArrayType_of_value value_type mut b z))]"
  "index (target (returned (MakeArrayType_of_value value_type mut b z))) =
     of_nat (length (builder_types b))"
  "builder_functions (builder_after (MakeArrayType_of_value value_type mut b z)) =
     builder_functions b"
  by (simp_all add: MakeArrayType_of_value_def MakeFieldType_of_value_def MakeArrayType_def
      zone_defs)

lemma MakeArrayType_of_packed_registers:
  "builder_types (builder_after (MakeArrayType_of_packed packed_type mut b z)) =
     builder_types b @ [target (returned (MakeArrayType_of_packed packed_type mut b z))]"
  "index (target (returned (MakeArrayType_of_packed packed_type mut b z))) =
     of_nat (length (builder_types b))"
  "builder_functions (builder_after (MakeArrayType_of_packed packed_type mut b z)) =
     builder_functions b"
  by (simp_all add: MakeArrayType_of_packed_def MakeFieldType_of_packed_def MakeArrayType_def
      zone_defs)

lemma AddFunction_registers:
  "builder_functions (builder_after (AddFunction n t b z)) =
     builder_functions b @ [target (returned (AddFunction n t b z))]"
  "Function_index (target (returned (AddFunction n t b z))) =
     of_nat (length (builder_functions b))"
  "builder_types (builder_after (AddFunction n t b z)) = builder_types b"
  by (simp_all add: AddFunction_def Function_ctor_def zone_defs)

lemma value_factories_builder:
  "builder_after (MakeFieldType_of_value value_type mut b z) = b"
  "builder_after (MakeFieldType_of_packed packed_type mut b z) = b"
  "builder_after (MakeHeapType def_type b z) = b"
  "builder_after (MakeRefType nullable heap_type b z) = b"
  by (simp_all add: factory_defs zone_defs)

lemmas registers = MakeFuncType_registers MakeStructType_registers MakeArrayType_registers
  MakeArrayType_of_value_registers MakeArrayType_of_packed_registers AddFunction_registers

lemma apply_op_lengths:
  assumes "apply_op op z b = Inr b'"
  shows "length (builder_types b') = length (builder_types b) + (if registers_type op then 1 else 0)"
    and "length (builder_functions b') =
           length (builder_functions b) + (if registers_function op then 1 else 0)"
proof -
  show "length (builder_types b') = length (builder_types b) + (if registers_type op then 1 else 0)"
  proof (cases op)
    case (Op_AddLocal p k t n)
    with assms show ?thesis
      by (auto simp: on_function_def then_do_def split: if_splits sum.splits)
  next
    case (Op_MakeNewBody p)
    with assms show ?thesis
      by (auto simp: on_function_def then_do_def split: if_splits sum.splits)
  next
    case (Op_AddInstruction p instr)
    with assms show ?thesis
      by (auto simp: on_function_def then_do_def split: if_splits sum.splits)
  qed (use assms in \<open>auto simp: registers value_factories_builder on_type_def\<close>)
  show "length (builder_functions b') =
           length (builder_functions b) + (if registers_function op then 1 else 0)"
  proof (cases op)
    case (Op_AddLocal p k t n)
    with assms show ?thesis
      by (auto simp: on_function_def then_do_def split: if_splits sum.splits)
  next
    case (Op_MakeNewBody p)
    with assms show ?thesis
      by (auto simp: on_function_def then_do_def split: if_splits sum.splits)
  next
    case (Op_AddInstruction p instr)
    with assms show ?thesis
      by (auto simp: on_function_def then_do_def split: if_splits sum.splits)
  qed (use assms in \<open>auto simp: registers value_factories_builder on_type_def\<close>)
qed

lemma apply_ops_Cons:
  assumes "apply_ops ((op, z) # ops) b = Inr b'"
  obtains b1 where "apply_op op z b = Inr b1" and "apply_ops ops b1 = Inr b'"
  using assms by (auto simp: apply_ops_def then_do_def split: sum.splits)

lemma apply_ops_lengths:
  "apply_ops ops b = Inr b' \<Longrightarrow>
   length (builder_types b) \<le> length (builder_types b') \<and>
   length (builder_functions b) \<le> length (builder_functions b')"
proof (induction ops arbitrary: b)
  case Nil
  then show ?case by (simp add: apply_ops_def)
next
  case (Cons step ops)
  obtain op z where step: "step = (op, z)" by (cases step)
  from Cons.prems step obtain b1 where b1: "apply_op op z b = Inr b1" "apply_ops ops b1 = Inr b'"
    by (auto elim: apply_ops_Cons)
  from apply_op_lengths [OF b1(1)] Cons.IH [OF b1(2)] show ?case
    by (auto split: if_splits)
qed

lemma unat_index_of_length: "n < 2 ^ 31 \<Longrightarrow> unat (of_nat n :: 32 word) = n"
  by (simp add: unat_of_nat)

lemma apply_op_indices:
  assumes ok: "apply_op op z b = Inr b'"
    and t: "type_indices b = [0..<length (builder_types b)]"
    and f: "function_indices b = [0..<length (builder_functions b)]"
    and bt: "length (builder_types b') \<le> 2 ^ 31"
    and bf: "length (builder_functions b') \<le> 2 ^ 31"
  shows "type_indices b' = [0..<length (builder_types b')] \<and>
         function_indices b' = [0..<length (builder_functions b')]"
proof -
  note len = apply_op_lengths [OF ok]
  have reg_t: "unat (of_nat (length (builder_types b)) :: 32 word) = length (builder_types b)"
    if "registers_type op"
    using that len(1) bt by (intro unat_index_of_length) simp
  have reg_f: "unat (of_nat (length (builder_functions b)) :: 32 word) = length (builder_functions b)"
    if "registers_function op"
    using that len(2) bf by (intro unat_index_of_length) simp
  show ?thesis
  proof (cases op)
    case (Op_AddParam p param_type)
    with ok t f show ?thesis
      using type_indices_on_type [of "AddParam param_type" p b]
      by (auto simp: index_AddParam function_indices_def)
  next
    case (Op_AddField p field_type)
    with ok t f show ?thesis
      using type_indices_on_type [of "AddField field_type" p b]
      by (auto simp: index_AddField function_indices_def)
  next
    case (Op_AddLocal p k ty n)
    with ok t f show ?thesis
      using function_indices_on_function [of "AddLocal k ty n" p b b']
      by (auto simp: Function_index_AddLocal type_indices_def)
  next
    case (Op_MakeNewBody p)
    with ok t f show ?thesis
      using function_indices_on_function [of "\<lambda>f. Inr (MakeNewBody f)" p b b']
      by (auto simp: MakeNewBody_def type_indices_def)
  next
    case (Op_AddInstruction p instr)
    with ok t f show ?thesis
      using function_indices_on_function [of "\<lambda>f. Inr (AddInstruction instr f)" p b b']
      by (auto simp: Function_index_AddInstruction type_indices_def)
  next
    case (Op_AddFunction n ty)
    with ok t f reg_f show ?thesis
      by (auto simp: registers type_indices_def function_indices_def)
  qed (use ok t f reg_t in
      \<open>auto simp: registers value_factories_builder type_indices_def function_indices_def\<close>)
qed

lemma apply_ops_indices:
  "apply_ops ops b = Inr b' \<Longrightarrow>
   type_indices b = [0..<length (builder_types b)] \<Longrightarrow>
   function_indices b = [0..<length (builder_functions b)] \<Longrightarrow>
   length (builder_types b') \<le> 2 ^ 31 \<Longrightarrow>
   length (builder_functions b') \<le> 2 ^ 31 \<Longrightarrow>
   type_indices b' = [0..<length (builder_types b')] \<and>
   function_indices b' = [0..<length (builder_functions b')]"
proof (induction ops arbitrary: b)
  case Nil
  then show ?case by (simp add: apply_ops_def)
next
  case (Cons step ops)
  obtain op z where step: "step = (op, z)" by (cases step)
  from Cons.prems(1) step obtain b1
    where b1: "apply_op op z b = Inr b1" "apply_ops ops b1 = Inr b'"
    by (auto elim: apply_ops_Cons)
  from apply_ops_lengths [OF b1(2)] Cons.prems(4,5)
  have "length (builder_types b1) \<le> 2 ^ 31" "length (builder_functions b1) \<le> 2 ^ 31"
    by simp_all
  from apply_op_indices [OF b1(1) Cons.prems(2,3) this]
  show ?case
    using Cons.IH [OF b1(2)] Cons.prems(4,5) by blast
qed

lemma nth_indices:
  assumes "map g xs = [0..<length xs]" and "i < length xs"
  shows "xs ! g (xs ! i) = xs ! i"
proof -
  from assms have "map g xs ! i = [0..<length xs] ! i" by simp
  with assms(2) have "g (xs ! i) = i" by simp
  then show ?thesis by simp
qed

text \<open>
  An operation keeps the objects registered before it at their positions. A method called
  through a handle changes the object at the position of the handle, and not its index.
\<close>

lemma apply_op_keeps_types:
  assumes ok: "apply_op op z b = Inr b'" and i: "i < length (builder_types b)"
  shows "type_handle op \<noteq> Some i \<Longrightarrow> builder_types b' ! i = builder_types b ! i"
    and "index (builder_types b' ! i) = index (builder_types b ! i)"
proof -
  have "(type_handle op \<noteq> Some i \<longrightarrow> builder_types b' ! i = builder_types b ! i) \<and>
        index (builder_types b' ! i) = index (builder_types b ! i)"
  proof (cases op)
    case (Op_AddParam p param_type)
    with ok i show ?thesis
      by (auto simp: on_type_def index_AddParam nth_list_update)
  next
    case (Op_AddField p field_type)
    with ok i show ?thesis
      by (auto simp: on_type_def index_AddField nth_list_update)
  next
    case (Op_AddLocal p k ty n)
    with ok show ?thesis
      using function_indices_on_function(3) [of "AddLocal k ty n" p b b']
      by (simp add: Function_index_AddLocal)
  next
    case (Op_MakeNewBody p)
    with ok show ?thesis
      using function_indices_on_function(3) [of "\<lambda>f. Inr (MakeNewBody f)" p b b']
      by (simp add: MakeNewBody_def)
  next
    case (Op_AddInstruction p instr)
    with ok show ?thesis
      using function_indices_on_function(3) [of "\<lambda>f. Inr (AddInstruction instr f)" p b b']
      by (simp add: Function_index_AddInstruction)
  qed (use ok i in \<open>auto simp: registers value_factories_builder nth_append\<close>)
  then show "type_handle op \<noteq> Some i \<Longrightarrow> builder_types b' ! i = builder_types b ! i"
    and "index (builder_types b' ! i) = index (builder_types b ! i)"
    by simp_all
qed

lemma apply_op_keeps_functions:
  assumes ok: "apply_op op z b = Inr b'" and i: "i < length (builder_functions b)"
  shows "function_handle op \<noteq> Some i \<Longrightarrow> builder_functions b' ! i = builder_functions b ! i"
    and "Function_index (builder_functions b' ! i) = Function_index (builder_functions b ! i)"
proof -
  have on: "(p \<noteq> i \<longrightarrow> builder_functions b' ! i = builder_functions b ! i) \<and>
      Function_index (builder_functions b' ! i) = Function_index (builder_functions b ! i)"
    if "on_function p called b = Inr b'"
      and "\<And>f f'. called f = Inr f' \<Longrightarrow> Function_index f' = Function_index f"
    for p called
    using that i
    by (auto simp: on_function_def then_do_def nth_list_update split: if_splits sum.splits)
  have "(function_handle op \<noteq> Some i \<longrightarrow> builder_functions b' ! i = builder_functions b ! i) \<and>
        Function_index (builder_functions b' ! i) = Function_index (builder_functions b ! i)"
  proof (cases op)
    case (Op_AddParam p param_type)
    with ok show ?thesis
      using type_indices_on_type(3) [of "AddParam param_type" p b]
      by (auto simp: index_AddParam)
  next
    case (Op_AddField p field_type)
    with ok show ?thesis
      using type_indices_on_type(3) [of "AddField field_type" p b]
      by (auto simp: index_AddField)
  next
    case (Op_AddLocal p k ty n)
    with ok on [of p "AddLocal k ty n"] show ?thesis
      by (simp add: Function_index_AddLocal)
  next
    case (Op_MakeNewBody p)
    with ok on [of p "\<lambda>f. Inr (MakeNewBody f)"] show ?thesis
      by (simp add: MakeNewBody_def)
  next
    case (Op_AddInstruction p instr)
    with ok on [of p "\<lambda>f. Inr (AddInstruction instr f)"] show ?thesis
      by (simp add: Function_index_AddInstruction)
  qed (use ok i in \<open>auto simp: registers value_factories_builder nth_append\<close>)
  then show "function_handle op \<noteq> Some i \<Longrightarrow> builder_functions b' ! i = builder_functions b ! i"
    and "Function_index (builder_functions b' ! i) = Function_index (builder_functions b ! i)"
    by simp_all
qed


text \<open>
  Claim C6. \<open>B\<close> is a builder after any sequence of operations on a new builder, with fewer
  than \<open>2^31\<close> composite types and fewer than \<open>2^31\<close> functions, so that every position
  fits the 32-bit index. Then the indices of the registered composite types are
  \<open>0, 1, 2, \<dots>\<close> in the order of \<^verbatim>\<open>types_\<close>, and those of the functions in the order of
  \<^verbatim>\<open>functions_\<close>: the object at the position that an object's index names is the object
  itself. Each of \<^verbatim>\<open>MakeFuncType\<close>, \<^verbatim>\<open>MakeStructType\<close> and the three \<^verbatim>\<open>MakeArrayType\<close>,
  in any state of the zone, appends the object it returns to \<^verbatim>\<open>types_\<close> and nothing else,
  the index of the object is its position, and \<^verbatim>\<open>functions_\<close> is as it was; \<^verbatim>\<open>AddFunction\<close>
  does the same with \<^verbatim>\<open>functions_\<close>. Every operation that succeeds on \<open>B\<close> gives a builder
  \<open>B'\<close> with the same property: the indices count up from 0, no list gets shorter, every
  object registered in \<open>B\<close> keeps its index, and it is the same object at the same position,
  unless the operation is a method called through the handle to that very object.
\<close>

theorem builder_indices_are_positions:
  assumes run: "apply_ops ops WasmModuleBuilder_ctor = Inr B"
    and bt: "length (builder_types B) < 2 ^ 31"
    and bf: "length (builder_functions B) < 2 ^ 31"
  shows "type_indices B = [0..<length (builder_types B)] \<and>
    function_indices B = [0..<length (builder_functions B)] \<and>
    (\<forall>i<length (builder_types B).
       builder_types B ! unat (index (builder_types B ! i)) = builder_types B ! i) \<and>
    (\<forall>i<length (builder_functions B).
       builder_functions B ! unat (Function_index (builder_functions B ! i)) =
         builder_functions B ! i) \<and>
    builder_types (builder_after (MakeFuncType result_type B z)) =
      builder_types B @ [target (returned (MakeFuncType result_type B z))] \<and>
    unat (index (target (returned (MakeFuncType result_type B z)))) = length (builder_types B) \<and>
    builder_functions (builder_after (MakeFuncType result_type B z)) = builder_functions B \<and>
    builder_types (builder_after (MakeStructType B z)) =
      builder_types B @ [target (returned (MakeStructType B z))] \<and>
    unat (index (target (returned (MakeStructType B z)))) = length (builder_types B) \<and>
    builder_functions (builder_after (MakeStructType B z)) = builder_functions B \<and>
    builder_types (builder_after (MakeArrayType field_type B z)) =
      builder_types B @ [target (returned (MakeArrayType field_type B z))] \<and>
    unat (index (target (returned (MakeArrayType field_type B z)))) = length (builder_types B) \<and>
    builder_functions (builder_after (MakeArrayType field_type B z)) = builder_functions B \<and>
    builder_types (builder_after (MakeArrayType_of_value value_type mut B z)) =
      builder_types B @ [target (returned (MakeArrayType_of_value value_type mut B z))] \<and>
    unat (index (target (returned (MakeArrayType_of_value value_type mut B z)))) =
      length (builder_types B) \<and>
    builder_functions (builder_after (MakeArrayType_of_value value_type mut B z)) =
      builder_functions B \<and>
    builder_types (builder_after (MakeArrayType_of_packed packed_type mut B z)) =
      builder_types B @ [target (returned (MakeArrayType_of_packed packed_type mut B z))] \<and>
    unat (index (target (returned (MakeArrayType_of_packed packed_type mut B z)))) =
      length (builder_types B) \<and>
    builder_functions (builder_after (MakeArrayType_of_packed packed_type mut B z)) =
      builder_functions B \<and>
    builder_functions (builder_after (AddFunction n t B z)) =
      builder_functions B @ [target (returned (AddFunction n t B z))] \<and>
    unat (Function_index (target (returned (AddFunction n t B z)))) =
      length (builder_functions B) \<and>
    builder_types (builder_after (AddFunction n t B z)) = builder_types B \<and>
    (apply_op op z B = Inr B' \<longrightarrow>
       type_indices B' = [0..<length (builder_types B')] \<and>
       function_indices B' = [0..<length (builder_functions B')] \<and>
       (\<forall>i<length (builder_types B').
          builder_types B' ! unat (index (builder_types B' ! i)) = builder_types B' ! i) \<and>
       (\<forall>i<length (builder_functions B').
          builder_functions B' ! unat (Function_index (builder_functions B' ! i)) =
            builder_functions B' ! i) \<and>
       length (builder_types B) \<le> length (builder_types B') \<and>
       length (builder_functions B) \<le> length (builder_functions B') \<and>
       (\<forall>i<length (builder_types B).
          index (builder_types B' ! i) = index (builder_types B ! i) \<and>
          (type_handle op \<noteq> Some i \<longrightarrow> builder_types B' ! i = builder_types B ! i)) \<and>
       (\<forall>i<length (builder_functions B).
          Function_index (builder_functions B' ! i) = Function_index (builder_functions B ! i) \<and>
          (function_handle op \<noteq> Some i \<longrightarrow>
             builder_functions B' ! i = builder_functions B ! i)))"
proof -
  have init: "type_indices WasmModuleBuilder_ctor = [0..<length (builder_types WasmModuleBuilder_ctor)]"
    "function_indices WasmModuleBuilder_ctor = [0..<length (builder_functions WasmModuleBuilder_ctor)]"
    by (simp_all add: WasmModuleBuilder_ctor_def type_indices_def function_indices_def)
  from bt bf have le: "length (builder_types B) \<le> 2 ^ 31" "length (builder_functions B) \<le> 2 ^ 31"
    by simp_all
  from apply_ops_indices [OF run init le]
  have ti: "type_indices B = [0..<length (builder_types B)]"
    and fi: "function_indices B = [0..<length (builder_functions B)]"
    by simp_all
  have pt: "\<forall>i<length (builder_types b).
       builder_types b ! unat (index (builder_types b ! i)) = builder_types b ! i"
    if "type_indices b = [0..<length (builder_types b)]" for b
    using nth_indices [of "\<lambda>t. unat (index t)" "builder_types b"] that
    by (simp add: type_indices_def)
  have pf: "\<forall>i<length (builder_functions b).
       builder_functions b ! unat (Function_index (builder_functions b ! i)) =
         builder_functions b ! i"
    if "function_indices b = [0..<length (builder_functions b)]" for b
    using nth_indices [of "\<lambda>f. unat (Function_index f)" "builder_functions b"] that
    by (simp add: function_indices_def)
  have ut: "unat (of_nat (length (builder_types B)) :: 32 word) = length (builder_types B)"
    using bt by (rule unat_index_of_length)
  have uf: "unat (of_nat (length (builder_functions B)) :: 32 word) = length (builder_functions B)"
    using bf by (rule unat_index_of_length)
  have step: "type_indices B' = [0..<length (builder_types B')] \<and>
       function_indices B' = [0..<length (builder_functions B')] \<and>
       (\<forall>i<length (builder_types B').
          builder_types B' ! unat (index (builder_types B' ! i)) = builder_types B' ! i) \<and>
       (\<forall>i<length (builder_functions B').
          builder_functions B' ! unat (Function_index (builder_functions B' ! i)) =
            builder_functions B' ! i) \<and>
       length (builder_types B) \<le> length (builder_types B') \<and>
       length (builder_functions B) \<le> length (builder_functions B') \<and>
       (\<forall>i<length (builder_types B).
          index (builder_types B' ! i) = index (builder_types B ! i) \<and>
          (type_handle op \<noteq> Some i \<longrightarrow> builder_types B' ! i = builder_types B ! i)) \<and>
       (\<forall>i<length (builder_functions B).
          Function_index (builder_functions B' ! i) = Function_index (builder_functions B ! i) \<and>
          (function_handle op \<noteq> Some i \<longrightarrow>
             builder_functions B' ! i = builder_functions B ! i))"
    if ok: "apply_op op z B = Inr B'"
  proof -
    note len = apply_op_lengths [OF ok]
    from len bt bf
    have le': "length (builder_types B') \<le> 2 ^ 31" "length (builder_functions B') \<le> 2 ^ 31"
      by (simp_all split: if_splits)
    from apply_op_indices [OF ok ti fi le']
    have ti': "type_indices B' = [0..<length (builder_types B')]"
      and fi': "function_indices B' = [0..<length (builder_functions B')]"
      by simp_all
    from len have grow: "length (builder_types B) \<le> length (builder_types B')"
      "length (builder_functions B) \<le> length (builder_functions B')"
      by simp_all
    show ?thesis
      using ti' fi' pt [OF ti'] pf [OF fi'] grow
        apply_op_keeps_types [OF ok] apply_op_keeps_functions [OF ok]
      by blast
  qed
  show ?thesis
    using ti fi pt [OF ti] pf [OF fi] ut uf step
    by (simp add: registers)
qed

theorem builder_indices_are_positions_witness:
  "apply_ops [(Op_MakeStructType, \<lparr>Zone_position = 0\<rparr>),
              (Op_MakeFuncType (NumType kI32), \<lparr>Zone_position = 1\<rparr>),
              (Op_AddFunction ''main'' (FuncType 1 [] (NumType kI32)), \<lparr>Zone_position = 2\<rparr>),
              (Op_AddParam 1 (NumType kI64), \<lparr>Zone_position = 3\<rparr>)] WasmModuleBuilder_ctor =
     Inr \<lparr>builder_types = [StructType 0 [], FuncType 1 [NumType kI64] (NumType kI32)],
          builder_functions = [Function_ctor ''main'' 0 1]\<rparr> \<and>
   apply_op (Op_MakeArrayType_of_value (NumType kI32) True) \<lparr>Zone_position = 3\<rparr>
       \<lparr>builder_types = [StructType 0 [], FuncType 1 [NumType kI64] (NumType kI32)],
        builder_functions = [Function_ctor ''main'' 0 1]\<rparr> =
     Inr \<lparr>builder_types = [StructType 0 [], FuncType 1 [NumType kI64] (NumType kI32),
            ArrayType 2 (FieldType (Some (NumType kI32)) kNoType True)],
          builder_functions = [Function_ctor ''main'' 0 1]\<rparr> \<and>
   (1::nat) < length [StructType 0 [], FuncType 1 [NumType kI64] (NumType kI32)] \<and>
   type_handle (Op_MakeArrayType_of_value (NumType kI32) True) \<noteq> Some 1 \<and>
   [StructType 0 [], FuncType 1 [NumType kI64] (NumType kI32),
      ArrayType 2 (FieldType (Some (NumType kI32)) kNoType True)] ! 1 =
     [StructType 0 [], FuncType 1 [NumType kI64] (NumType kI32)] ! 1 \<and>
   (0::nat) < length [Function_ctor ''main'' 0 1] \<and>
   function_handle (Op_MakeArrayType_of_value (NumType kI32) True) \<noteq> Some 0 \<and>
   type_indices \<lparr>builder_types = [StructType 0 [], FuncType 1 [NumType kI64] (NumType kI32)],
          builder_functions = [Function_ctor ''main'' 0 1]\<rparr> = [0, 1] \<and>
   function_indices \<lparr>builder_types = [StructType 0 [], FuncType 1 [NumType kI64] (NumType kI32)],
          builder_functions = [Function_ctor ''main'' 0 1]\<rparr> = [0] \<and>
   type_indices \<lparr>builder_types = [StructType 0 [], FuncType 1 [NumType kI64] (NumType kI32),
            ArrayType 2 (FieldType (Some (NumType kI32)) kNoType True)],
          builder_functions = [Function_ctor ''main'' 0 1]\<rparr> = [0, 1, 2] \<and>
   target (returned (MakeArrayType_of_value (NumType kI32) True
     \<lparr>builder_types = [StructType 0 [], FuncType 1 [NumType kI64] (NumType kI32)],
      builder_functions = [Function_ctor ''main'' 0 1]\<rparr> \<lparr>Zone_position = 3\<rparr>)) =
     ArrayType 2 (FieldType (Some (NumType kI32)) kNoType True) \<and>
   unat (index (target (returned (MakeStructType
     \<lparr>builder_types = [StructType 0 [], FuncType 1 [NumType kI64] (NumType kI32)],
      builder_functions = [Function_ctor ''main'' 0 1]\<rparr> \<lparr>Zone_position = 3\<rparr>)))) = 2"
proof -
  have run: "apply_ops [(Op_MakeStructType, \<lparr>Zone_position = 0\<rparr>),
              (Op_MakeFuncType (NumType kI32), \<lparr>Zone_position = 1\<rparr>),
              (Op_AddFunction ''main'' (FuncType 1 [] (NumType kI32)), \<lparr>Zone_position = 2\<rparr>),
              (Op_AddParam 1 (NumType kI64), \<lparr>Zone_position = 3\<rparr>)] WasmModuleBuilder_ctor =
     Inr \<lparr>builder_types = [StructType 0 [], FuncType 1 [NumType kI64] (NumType kI32)],
          builder_functions = [Function_ctor ''main'' 0 1]\<rparr>"
    by (simp add: apply_ops_def then_do_simps WasmModuleBuilder_ctor_def MakeStructType_def
        MakeFuncType_def AddFunction_def on_type_def zone_defs)
  have step: "apply_op (Op_MakeArrayType_of_value (NumType kI32) True) \<lparr>Zone_position = 3\<rparr>
       \<lparr>builder_types = [StructType 0 [], FuncType 1 [NumType kI64] (NumType kI32)],
        builder_functions = [Function_ctor ''main'' 0 1]\<rparr> =
     Inr \<lparr>builder_types = [StructType 0 [], FuncType 1 [NumType kI64] (NumType kI32),
            ArrayType 2 (FieldType (Some (NumType kI32)) kNoType True)],
          builder_functions = [Function_ctor ''main'' 0 1]\<rparr>"
    by (simp add: MakeArrayType_of_value_def MakeFieldType_of_value_def MakeArrayType_def
        FieldType_of_value_def zone_defs)
  from builder_indices_are_positions [OF run, where z = "\<lparr>Zone_position = 3\<rparr>"
      and op = "Op_MakeArrayType_of_value (NumType kI32) True"
      and value_type = "NumType kI32" and mut = True
      and B' = "\<lparr>builder_types = [StructType 0 [], FuncType 1 [NumType kI64] (NumType kI32),
            ArrayType 2 (FieldType (Some (NumType kI32)) kNoType True)],
          builder_functions = [Function_ctor ''main'' 0 1]\<rparr>"] run step
  show ?thesis
    by (simp add: type_indices_def function_indices_def MakeArrayType_of_value_def
        MakeFieldType_of_value_def MakeArrayType_def MakeStructType_def FieldType_of_value_def
        Function_ctor_def zone_defs)
qed

text \<open>
  Claim C10. \<^verbatim>\<open>MakeFieldType\<close>, \<^verbatim>\<open>MakeHeapType\<close> and \<^verbatim>\<open>MakeRefType\<close>, on any builder and in any
  state of the zone, leave the builder as it was and return a pointer to the object built
  from their arguments, at an address that was not in use: it is none of the objects of the
  zone that were there before the call. After the call the addresses in use are those in
  use before and the address returned, so that a second call with the same arguments
  returns another address. Every operation that succeeds leaves the number of composite
  types as it was, except the type factories \<^verbatim>\<open>MakeFuncType\<close>, \<^verbatim>\<open>MakeStructType\<close> and
  \<^verbatim>\<open>MakeArrayType\<close>, which add one, and leaves the number of functions as it was, except
  \<^verbatim>\<open>AddFunction\<close>, which adds one.
\<close>

theorem value_factories_leave_index_spaces:
  "builder_after (MakeFieldType_of_value value_type mut b z) = b \<and>
   target (returned (MakeFieldType_of_value value_type mut b z)) =
     FieldType (Some value_type) kNoType mut \<and>
   \<not> in_use z (address_of (returned (MakeFieldType_of_value value_type mut b z))) \<and>
   (in_use (zone_after (MakeFieldType_of_value value_type mut b z)) a \<longleftrightarrow>
      in_use z a \<or> a = address_of (returned (MakeFieldType_of_value value_type mut b z))) \<and>
   address_of (returned (MakeFieldType_of_value value_type mut b
       (zone_after (MakeFieldType_of_value value_type mut b z)))) \<noteq>
     address_of (returned (MakeFieldType_of_value value_type mut b z)) \<and>
   builder_after (MakeFieldType_of_packed packed_type mut b z) = b \<and>
   target (returned (MakeFieldType_of_packed packed_type mut b z)) =
     FieldType None packed_type mut \<and>
   \<not> in_use z (address_of (returned (MakeFieldType_of_packed packed_type mut b z))) \<and>
   (in_use (zone_after (MakeFieldType_of_packed packed_type mut b z)) a \<longleftrightarrow>
      in_use z a \<or> a = address_of (returned (MakeFieldType_of_packed packed_type mut b z))) \<and>
   address_of (returned (MakeFieldType_of_packed packed_type mut b
       (zone_after (MakeFieldType_of_packed packed_type mut b z)))) \<noteq>
     address_of (returned (MakeFieldType_of_packed packed_type mut b z)) \<and>
   builder_after (MakeHeapType def_type b z) = b \<and>
   target (returned (MakeHeapType def_type b z)) = HeapType kTypeidx (Some (index def_type)) \<and>
   \<not> in_use z (address_of (returned (MakeHeapType def_type b z))) \<and>
   (in_use (zone_after (MakeHeapType def_type b z)) a \<longleftrightarrow>
      in_use z a \<or> a = address_of (returned (MakeHeapType def_type b z))) \<and>
   address_of (returned (MakeHeapType def_type b (zone_after (MakeHeapType def_type b z)))) \<noteq>
     address_of (returned (MakeHeapType def_type b z)) \<and>
   builder_after (MakeRefType nullable heap_type b z) = b \<and>
   target (returned (MakeRefType nullable heap_type b z)) = RefType nullable heap_type \<and>
   \<not> in_use z (address_of (returned (MakeRefType nullable heap_type b z))) \<and>
   (in_use (zone_after (MakeRefType nullable heap_type b z)) a \<longleftrightarrow>
      in_use z a \<or> a = address_of (returned (MakeRefType nullable heap_type b z))) \<and>
   address_of (returned (MakeRefType nullable heap_type b
       (zone_after (MakeRefType nullable heap_type b z)))) \<noteq>
     address_of (returned (MakeRefType nullable heap_type b z)) \<and>
   (apply_op op z b = Inr b' \<longrightarrow>
      length (builder_types b') = length (builder_types b) + (if registers_type op then 1 else 0) \<and>
      length (builder_functions b') =
        length (builder_functions b) + (if registers_function op then 1 else 0)) \<and>
   \<not> registers_type (Op_MakeFieldType_of_value value_type mut) \<and>
   \<not> registers_type (Op_MakeFieldType_of_packed packed_type mut) \<and>
   \<not> registers_type (Op_MakeHeapType def_type) \<and>
   \<not> registers_type (Op_MakeRefType nullable heap_type) \<and>
   \<not> registers_function (Op_MakeFieldType_of_value value_type mut) \<and>
   \<not> registers_function (Op_MakeFieldType_of_packed packed_type mut) \<and>
   \<not> registers_function (Op_MakeHeapType def_type) \<and>
   \<not> registers_function (Op_MakeRefType nullable heap_type)"
proof -
  have fresh: "\<not> in_use z (address_of (fst (Zone_new z object)))"
    "in_use (snd (Zone_new z object)) a \<longleftrightarrow> in_use z a \<or> a = address_of (fst (Zone_new z object))"
    "address_of (fst (Zone_new (snd (Zone_new z object)) object')) \<noteq>
       address_of (fst (Zone_new z object))"
    for object object' :: 'a
    by (auto simp: Zone_new_def in_use_def address_of_def)
  have made: "returned (MakeFieldType_of_value value_type mut b z) =
      fst (Zone_new z (FieldType_of_value value_type mut))"
    "zone_after (MakeFieldType_of_value value_type mut b z) =
      snd (Zone_new z (FieldType_of_value value_type mut))"
    "returned (MakeFieldType_of_packed packed_type mut b z) =
      fst (Zone_new z (FieldType_of_packed packed_type mut))"
    "zone_after (MakeFieldType_of_packed packed_type mut b z) =
      snd (Zone_new z (FieldType_of_packed packed_type mut))"
    "returned (MakeHeapType def_type b z) =
      fst (Zone_new z (HeapType kTypeidx (Some (index def_type))))"
    "zone_after (MakeHeapType def_type b z) =
      snd (Zone_new z (HeapType kTypeidx (Some (index def_type))))"
    "returned (MakeRefType nullable heap_type b z) = fst (Zone_new z (RefType nullable heap_type))"
    "zone_after (MakeRefType nullable heap_type b z) = snd (Zone_new z (RefType nullable heap_type))"
    for z
    by (simp_all add: factory_defs returned_def zone_after_def split: prod.splits)
  have objects: "target (fst (Zone_new z object)) = object" for object :: 'a
    by (simp add: Zone_new_def target_def)
  show ?thesis
    using apply_op_lengths [of op z b b']
    by (simp add: value_factories_builder made fresh objects FieldType_of_value_def
        FieldType_of_packed_def)
qed

theorem value_factories_leave_index_spaces_witness:
  "apply_op Op_MakeStructType \<lparr>Zone_position = 7\<rparr> WasmModuleBuilder_ctor =
     Inr \<lparr>builder_types = [StructType 0 []], builder_functions = []\<rparr> \<and>
   length (builder_types \<lparr>builder_types = [StructType 0 []], builder_functions = []\<rparr>) =
     length (builder_types WasmModuleBuilder_ctor) + 1 \<and>
   apply_op (Op_MakeRefType True (Some (HeapType kFunc None))) \<lparr>Zone_position = 7\<rparr>
       WasmModuleBuilder_ctor = Inr WasmModuleBuilder_ctor \<and>
   MakeRefType True (Some (HeapType kFunc None)) WasmModuleBuilder_ctor \<lparr>Zone_position = 7\<rparr> =
     ((7, funcref), WasmModuleBuilder_ctor, \<lparr>Zone_position = 8\<rparr>) \<and>
   MakeRefType True (Some (HeapType kFunc None)) WasmModuleBuilder_ctor \<lparr>Zone_position = 8\<rparr> =
     ((8, funcref), WasmModuleBuilder_ctor, \<lparr>Zone_position = 9\<rparr>) \<and>
   \<not> in_use \<lparr>Zone_position = 7\<rparr> 7 \<and> in_use \<lparr>Zone_position = 8\<rparr> 7 \<and>
   in_use \<lparr>Zone_position = 7\<rparr> 6 \<and> in_use \<lparr>Zone_position = 8\<rparr> 6"
proof -
  have run: "apply_op Op_MakeStructType \<lparr>Zone_position = 7\<rparr> WasmModuleBuilder_ctor =
     Inr \<lparr>builder_types = [StructType 0 []], builder_functions = []\<rparr>"
    by (simp add: MakeStructType_def WasmModuleBuilder_ctor_def zone_defs)
  have made: "MakeRefType True (Some (HeapType kFunc None)) WasmModuleBuilder_ctor
      \<lparr>Zone_position = p\<rparr> = ((p, funcref), WasmModuleBuilder_ctor, \<lparr>Zone_position = Suc p\<rparr>)"
    for p
    by (simp add: MakeRefType_def Zone_new_def funcref_def)
  from value_factories_leave_index_spaces [where b = WasmModuleBuilder_ctor
      and z = "\<lparr>Zone_position = 7\<rparr>" and nullable = True
      and heap_type = "Some (HeapType kFunc None)" and op = Op_MakeStructType and a = 6
      and b' = "\<lparr>builder_types = [StructType 0 []], builder_functions = []\<rparr>"] run
  show ?thesis
    by (simp add: made zone_defs)
qed


section \<open>The scenarios of the specification\<close>

text \<open>
  The model on the worked examples: the text of \<open>i32.const 42\<close>, a struct with one mutable
  \<open>i32\<close> field, an immutable array of packed \<open>i8\<close>, and the module with the type
  \<open>() -> i32\<close> and the function \<open>main\<close> that returns the constant 42.
\<close>

lemma uleb128_small: "n < 128 \<Longrightarrow> uleb128 n = [of_nat n]"
  by (simp add: uleb128.simps)

lemma WRITE_BYTECOUNT_bytes:
  assumes "block \<lparr>stream = [], scopes = stream os # scopes os\<rparr> =
      Inr \<lparr>stream = payload, scopes = stream os # scopes os\<rparr>"
    and "length payload < 128"
  shows "WRITE_BYTECOUNT block os = Inr (os\<lparr>stream := stream os @ of_nat (length payload) # payload\<rparr>)"
  using WRITE_BYTECOUNT_law [of block os "\<lparr>stream = payload, scopes = stream os # scopes os\<rparr>"] assms
  by (simp add: PushBytecountFrontScope_ctor_def WriteStream_ctor_def uleb128_small)

lemma scenario_constant_text:
  "Instruction_Serialize (Constant 42) = SExpSymbol ''i32.const 42''"
  by (simp add: Pu32.simps char_of_def bit_Suc_0_iff)

lemma scenario_struct:
  "DefType_OutputBinary (AddField_of_value (NumType kI32) True (StructType 0 []))
     \<lparr>stream = [], scopes = []\<rparr> = Inr \<lparr>stream = [0x5F, 0x01, 0x7F, 0x01], scopes = []\<rparr>"
  by (simp add: AddField_of_value_def FieldType_of_value_def WRITE_UNSIGNED_length_1
      then_do_simps WRITE_BYTE_def WriteFixed_def)

lemma scenario_array:
  "DefType_OutputBinary
     (target (returned (MakeArrayType_of_packed kI8 False WasmModuleBuilder_ctor z)))
     \<lparr>stream = [], scopes = []\<rparr> = Inr \<lparr>stream = [0x5E, 0x7A, 0x00], scopes = []\<rparr>"
  by (simp add: MakeArrayType_of_packed_def MakeFieldType_of_packed_def FieldType_of_packed_def
      MakeArrayType_def WasmModuleBuilder_ctor_def zone_defs then_do_simps WRITE_BYTE_def
      WriteFixed_def)

lemma scenario_main:
  "WasmModuleBuilder_OutputBinary
     \<lparr>builder_types = [FuncType 0 [] (NumType kI32)],
      builder_functions = [\<lparr>Function_name = ''main'', Function_index = 0, Function_type = 0,
                            locals = [], body = Some [Constant 42]\<rparr>]\<rparr>
     \<lparr>stream = [], scopes = []\<rparr> =
   Inr \<lparr>stream = [0x00, 0x61, 0x73, 0x6D, 0x01, 0x00, 0x00, 0x00,
                  0x01, 0x05, 0x01, 0x60, 0x00, 0x01, 0x7F,
                  0x03, 0x02, 0x01, 0x00,
                  0x0A, 0x06, 0x01, 0x04, 0x00, 0x41, 0x2A, 0x0B],
        scopes = []\<rparr>"
proof -
  have f: "Function_OutputBinary \<lparr>Function_name = ''main'', Function_index = 0, Function_type = 0,
                            locals = [], body = Some [Constant 42]\<rparr> os =
      Inr (os\<lparr>stream := stream os @ [0x00, 0x41, 0x2A, 0x0B]\<rparr>)" for os
    by (simp add: Function_OutputBinary_def WRITE_UNSIGNED_length_0 then_do_simps
        InstructionList_OutputBinary_def WRITE_BYTE_def WriteFixed_def WRITE_UNSIGNED_def
        WriteUnsigned_def WriteInternal_unsigned.simps Let_def mask_defs WriteByte_def)
  have t: "DefType_OutputBinary (FuncType 0 [] (NumType kI32)) os =
      Inr (os\<lparr>stream := stream os @ [0x60, 0x00, 0x01, 0x7F]\<rparr>)" for os
    by (simp add: WRITE_UNSIGNED_length_0 then_do_simps WRITE_BYTE_def WriteFixed_def)
  have ts: "OutputTypeSection \<lparr>builder_types = [FuncType 0 [] (NumType kI32)],
      builder_functions = fs\<rparr> os =
      Inr (os\<lparr>stream := stream os @ [0x01, 0x05, 0x01, 0x60, 0x00, 0x01, 0x7F]\<rparr>)" for os fs
    unfolding OutputTypeSection_def Let_def
    by (subst WRITE_BYTECOUNT_bytes [where payload = "[0x01, 0x60, 0x00, 0x01, 0x7F]"])
       (simp_all add: WRITE_UNSIGNED_length_1 WRITE_UNSIGNED_length_0 then_do_simps
          WRITE_BYTE_def WriteFixed_def)
  show ?thesis
    by (simp add: WasmModuleBuilder_OutputBinary_def ts
        OutputFunctionSection_def OutputCodeSection_def then_do_simps WRITE_BYTE_def WriteFixed_def
        WRITE_BYTECOUNT_bytes WRITE_UNSIGNED_length_1 f WRITE_UNSIGNED_def
        WriteUnsigned_def WriteInternal_unsigned.simps Let_def mask_defs WriteByte_def)
qed


end
